theory Spec2Isabelle
  imports Complex_Main "HOL-Library.Sublist" "HOL-Library.Log_Nat"
begin

section \<open>JavaScript numbers produced by the scoring code\<close>

text \<open>
  The scorers compute \<^verbatim>\<open>Math.round((correct / n) * 100)\<close> on JavaScript numbers, which
  are IEEE 754 doubles. A finite double is kept as the rational it denotes. \<open>fl\<close> rounds
  a rational to the nearest double, a tie going to the even significand: with
  \<open>2 ^ e \<le> \<bar>x\<bar> < 2 ^ (e + 1)\<close> the doubles around \<open>x\<close> are the multiples of
  \<open>2 ^ (e - 52)\<close>. The operands of the division are counts of array entries, below
  \<open>2 ^ 32\<close>, so a quotient is \<open>0\<close> or at least \<open>2 ^ - 32\<close> and a product at most about
  \<open>100\<close>: the limits of the exponent of a double are never reached and are not modelled.
  The only non-finite results are \<^verbatim>\<open>0 / 0 = NaN\<close> and \<^verbatim>\<open>c / 0 = Infinity\<close>.
  \<^verbatim>\<open>Math.round\<close> returns the nearest integer, a tie going upwards. The same type carries
  the numbers of a parsed payload, where JSON5 also admits \<^verbatim>\<open>-Infinity\<close>.
\<close>

datatype jsnum = NaN | PosInf | NegInf | Num rat

definition exponent :: "rat \<Rightarrow> int" where
  "exponent x =
     (let (p, q) = quotient_of x; d = bitlen p - bitlen q
      in if power_int 2 d \<le> x then d else d - 1)"

definition roundHalfEven :: "rat \<Rightarrow> int" where
  "roundHalfEven m =
     (let f = \<lfloor>m\<rfloor>; r = m - of_int f
      in if r < 1 / 2 then f else if 1 / 2 < r then f + 1 else if even f then f else f + 1)"

definition fl :: "rat \<Rightarrow> rat" where
  "fl x =
     (if x = 0 then 0
      else (let ulp = power_int 2 (exponent \<bar>x\<bar> - 52)
            in sgn x * of_int (roundHalfEven (\<bar>x\<bar> / ulp)) * ulp))"

definition js_div :: "nat \<Rightarrow> nat \<Rightarrow> jsnum" where
  "js_div a b =
     (if b = 0 then (if a = 0 then NaN else PosInf) else Num (fl (of_nat a / of_nat b)))"

fun js_times100 :: "jsnum \<Rightarrow> jsnum" where
  "js_times100 (Num x) = Num (fl (x * 100))"
| "js_times100 v = v"

fun Math_round :: "jsnum \<Rightarrow> jsnum" where
  "Math_round (Num x) = Num (of_int \<lfloor>x + 1 / 2\<rfloor>)"
| "Math_round v = v"

section \<open>Quiz questions and the two note-page scorers\<close>

text \<open>
  \<^verbatim>\<open>interface QuizQuestion { type?: 'mcq' | 'essay'; question: string;
  options?: string[]; answer: string; explanation: string }\<close>.
  The older declaration has no \<^verbatim>\<open>type\<close> field and a mandatory \<^verbatim>\<open>options\<close>;
  it is the case \<open>qtype = None\<close>, \<open>options = Some _\<close> of this record.
\<close>

datatype qkind = mcq | essay

record QuizQuestion =
  qtype :: "qkind option"
  question :: string
  options :: "string list option"
  answer :: string
  explanation :: string

text \<open>
  \<^verbatim>\<open>calculateScore\<close> of pages/NoteDetailPage.tsx. \<^verbatim>\<open>note.quiz\<close> is optional
  (\<open>None\<close> is \<^verbatim>\<open>undefined\<close>); \<^verbatim>\<open>quizAnswers\<close> maps a question index to the
  chosen option; \<^verbatim>\<open>quizAnswers[idx] === q.answer\<close> is false for a missing entry.
\<close>

definition calculateScore :: "QuizQuestion list option \<Rightarrow> (nat \<rightharpoonup> string) \<Rightarrow> jsnum" where
  "calculateScore quiz quizAnswers =
     (case quiz of
        None \<Rightarrow> Num 0
      | Some qs \<Rightarrow>
          (let correct =
                 fold (\<lambda>(idx, q) correct.
                         if quizAnswers idx = Some (answer q) then correct + 1 else correct)
                      (enumerate 0 qs) (0::nat)
           in Math_round (js_times100 (js_div correct (length qs)))))"

text \<open>\<^verbatim>\<open>QuizView.score\<close> of the chat bubble: the same loop without the guard.\<close>

definition QuizView_score :: "QuizQuestion list \<Rightarrow> (nat \<rightharpoonup> string) \<Rightarrow> jsnum" where
  "QuizView_score quiz answers =
     (let correct =
            fold (\<lambda>(i, q) correct.
                    if answers i = Some (answer q) then correct + 1 else correct)
                 (enumerate 0 quiz) (0::nat)
      in Math_round (js_times100 (js_div correct (length quiz))))"

text \<open>
  The note page revision that knows essay questions tests
  \<^verbatim>\<open>q.type === 'mcq' || (!q.type && q.options)\<close> before counting an entry.
\<close>

definition isMCQ :: "QuizQuestion \<Rightarrow> bool" where
  "isMCQ q = (qtype q = Some mcq \<or> (qtype q = None \<and> options q \<noteq> None))"

definition calculateScoreMCQ :: "QuizQuestion list option \<Rightarrow> (nat \<rightharpoonup> string) \<Rightarrow> jsnum" where
  "calculateScoreMCQ quiz quizAnswers =
     (case quiz of
        None \<Rightarrow> Num 0
      | Some qs \<Rightarrow>
          (let (correct, totalMCQ) =
                 fold (\<lambda>(idx, q) (correct, totalMCQ).
                         if isMCQ q
                         then (if quizAnswers idx = Some (answer q) then correct + 1 else correct,
                               totalMCQ + 1)
                         else (correct, totalMCQ))
                      (enumerate 0 qs) (0::nat, 0::nat)
           in if totalMCQ = 0 then Num 0
              else Math_round (js_times100 (js_div correct totalMCQ))))"

subsection \<open>The score as the specification words it\<close>

text \<open>
  The multiple-choice entries of a quiz with their positions, each entry paired with the
  answer submitted at its position; the two counts; and
  \<open>percentage = round (100 * correctCount / multipleChoiceCount)\<close>, a half rounded
  upwards, \<open>0\<close> when there is no multiple-choice entry. \<open>halfway x\<close> says that \<open>x\<close> lies
  exactly between two integers.
\<close>

definition multipleChoice :: "QuizQuestion list \<Rightarrow> (nat \<times> QuizQuestion) list" where
  "multipleChoice quiz = filter (\<lambda>(i, q). isMCQ q) (enumerate 0 quiz)"

definition answeredMCQ ::
  "QuizQuestion list \<Rightarrow> (nat \<rightharpoonup> string) \<Rightarrow> (QuizQuestion \<times> string option) list" where
  "answeredMCQ quiz answers = map (\<lambda>(i, q). (q, answers i)) (multipleChoice quiz)"

definition multipleChoiceCount :: "QuizQuestion list \<Rightarrow> nat" where
  "multipleChoiceCount quiz = length (multipleChoice quiz)"

definition correctCount :: "QuizQuestion list \<Rightarrow> (nat \<rightharpoonup> string) \<Rightarrow> nat" where
  "correctCount quiz answers =
     length (filter (\<lambda>(q, a). a = Some (answer q)) (answeredMCQ quiz answers))"

definition roundHalfUp :: "rat \<Rightarrow> int" where
  "roundHalfUp x = \<lfloor>x + 1 / 2\<rfloor>"

definition halfway :: "rat \<Rightarrow> bool" where
  "halfway x = (of_int \<lfloor>x + 1 / 2\<rfloor> = x + 1 / 2)"

definition score_spec :: "QuizQuestion list \<Rightarrow> (nat \<rightharpoonup> string) \<Rightarrow> jsnum" where
  "score_spec quiz answers =
     (if multipleChoiceCount quiz = 0 then Num 0
      else Num (of_int (roundHalfUp (100 * of_nat (correctCount quiz answers)
                                       / of_nat (multipleChoiceCount quiz)))))"

subsection \<open>Quizzes for the closed examples\<close>

text \<open>
  A multiple-choice entry and an essay entry as quiz generation tags them; and a quiz of
  forty multiple-choice entries, every one answered through its option buttons, the first
  twenty-three with the right option.
\<close>

definition demo_mcq :: QuizQuestion where
  "demo_mcq = \<lparr> qtype = Some mcq, question = ''2+2?'',
                options = Some [''3'', ''4'', ''5''], answer = ''4'',
                explanation = ''basic addition'' \<rparr>"

definition demo_essay :: QuizQuestion where
  "demo_essay = \<lparr> qtype = Some essay, question = ''Explain addition.'',
                  options = Some [], answer = ''key points'',
                  explanation = ''see chapter one'' \<rparr>"

definition quiz40 :: "QuizQuestion list" where
  "quiz40 = replicate 40 demo_mcq"

definition answers23 :: "nat \<rightharpoonup> string" where
  "answers23 i = (if i < 23 then Some ''4'' else if i < 40 then Some ''3'' else None)"

section \<open>Strings and the two regular expressions of the title convention\<close>

text \<open>
  A JavaScript string is a sequence of UTF-16 code units; here it is a \<open>string\<close>, one
  \<open>char\<close> for each code unit below 256 (every literal of the source is ASCII).
  \<open>isSpace\<close> is the class \<^verbatim>\<open>\s\<close>, which is also what \<^verbatim>\<open>trim()\<close> removes;
  \<open>isLineTerminator\<close> is what \<^verbatim>\<open>.\<close> refuses to match.
\<close>

definition isSpace :: "char \<Rightarrow> bool" where
  "isSpace c = (c \<in> set [CHR 0x09, CHR 0x0A, CHR 0x0B, CHR 0x0C, CHR 0x0D, CHR 0x20, CHR 0xA0])"

definition isLineTerminator :: "char \<Rightarrow> bool" where
  "isLineTerminator c = (c = CHR 0x0A \<or> c = CHR 0x0D)"

definition trim :: "string \<Rightarrow> string" where
  "trim s = rev (dropWhile isSpace (rev (dropWhile isSpace s)))"

text \<open>Case folding of the \<^verbatim>\<open>i\<close> flag: a letter and its upper case are the same.\<close>

definition canonicalize :: "char \<Rightarrow> char" where
  "canonicalize c =
     (case map_of (zip ''abcdefghijklmnopqrstuvwxyz'' ''ABCDEFGHIJKLMNOPQRSTUVWXYZ'') c of
        Some u \<Rightarrow> u
      | None \<Rightarrow> c)"

fun matchLiteralCI :: "string \<Rightarrow> string \<Rightarrow> string option" where
  "matchLiteralCI [] s = Some s"
| "matchLiteralCI (p # ps) [] = None"
| "matchLiteralCI (p # ps) (c # cs) =
     (if canonicalize c = canonicalize p then matchLiteralCI ps cs else None)"

text \<open>
  \<^verbatim>\<open>rawText.match(/^JUDUL:\s*(.*)/i)\<close>: \<open>None\<close> when there is no match, else the
  first capture group. After the marker, \<^verbatim>\<open>\s*\<close> takes all the white space there is
  and \<^verbatim>\<open>(.*)\<close> the rest of that line.
\<close>

definition titleMatch :: "string \<Rightarrow> string option" where
  "titleMatch rawText =
     (case matchLiteralCI ''JUDUL:'' rawText of
        None \<Rightarrow> None
      | Some rest \<Rightarrow> Some (takeWhile (\<lambda>c. \<not> isLineTerminator c) (dropWhile isSpace rest)))"

text \<open>\<^verbatim>\<open>rawText.replace(/^JUDUL:.*\n?/i, '')\<close>.\<close>

definition removeTitleLine :: "string \<Rightarrow> string" where
  "removeTitleLine rawText =
     (case matchLiteralCI ''JUDUL:'' rawText of
        None \<Rightarrow> rawText
      | Some rest \<Rightarrow>
          (case dropWhile (\<lambda>c. \<not> isLineTerminator c) rest of
             [] \<Rightarrow> []
           | c # cs \<Rightarrow> if c = CHR 0x0A then cs else c # cs))"

text \<open>The title and content extraction of \<^verbatim>\<open>generateNoteSummary\<close>.\<close>

definition parseNoteContent :: "string \<Rightarrow> string \<times> string" where
  "parseNoteContent rawText =
     (let title = (case titleMatch rawText of
                     Some g \<Rightarrow> trim g
                   | None \<Rightarrow> ''Ringkasan Materi'');
          content = trim (removeTitleLine rawText)
      in (title, content))"

text \<open>
  \<^verbatim>\<open>text.replace(/```json\n?|```/g, '')\<close>: every occurrence, scanning from the left,
  the longer alternative first.
\<close>

fun stripFences :: "string \<Rightarrow> string" where
  "stripFences [] = []"
| "stripFences (c # cs) =
     (if prefix ''```json\<newline>'' (c # cs) then stripFences (drop 8 (c # cs))
      else if prefix ''```json'' (c # cs) then stripFences (drop 7 (c # cs))
      else if prefix ''```'' (c # cs) then stripFences (drop 3 (c # cs))
      else c # stripFences cs)"

text \<open>The marker test as the specification words it: a prefix match ignoring case.\<close>

definition startsWithMarker :: "string \<Rightarrow> bool" where
  "startsWithMarker rawText = (map canonicalize (take 6 rawText) = ''JUDUL:'')"

section \<open>Parsed JSON and the quiz mapping\<close>

text \<open>
  What \<^verbatim>\<open>JSON5.parse\<close> returns. Numbers are carried as they are; only their
  truthiness is ever inspected. An object is the list of its properties, each name once.
\<close>

datatype json =
    JNull
  | JBool bool
  | JNum jsnum
  | JStr string
  | JArr "json list"
  | JObj "(string \<times> json) list"

datatype exn = SyntaxError | TypeError | Error string | ApiError string

definition truthy :: "json \<Rightarrow> bool" where
  "truthy v =
     (case v of
        JNull \<Rightarrow> False
      | JBool b \<Rightarrow> b
      | JNum n \<Rightarrow> n \<noteq> NaN \<and> n \<noteq> Num 0
      | JStr s \<Rightarrow> s \<noteq> []
      | JArr _ \<Rightarrow> True
      | JObj _ \<Rightarrow> True)"

text \<open>
  \<^verbatim>\<open>parsed.name\<close>: a \<^verbatim>\<open>TypeError\<close> on \<^verbatim>\<open>null\<close>, \<open>None\<close>
  (\<^verbatim>\<open>undefined\<close>) where the value has no such property.
\<close>

definition getProp :: "string \<Rightarrow> json \<Rightarrow> exn + json option" where
  "getProp name v =
     (case v of
        JNull \<Rightarrow> Inl TypeError
      | JObj kvs \<Rightarrow> Inr (map_of kvs name)
      | _ \<Rightarrow> Inr None)"

text \<open>\<^verbatim>\<open>x || []\<close>.\<close>

definition orEmptyArray :: "json option \<Rightarrow> json" where
  "orEmptyArray x = (case x of None \<Rightarrow> JArr [] | Some v \<Rightarrow> if truthy v then v else JArr [])"

text \<open>\<^verbatim>\<open>x.map(f)\<close>: only an array has a callable \<^verbatim>\<open>map\<close>.\<close>

definition mapArray :: "(json \<Rightarrow> json) \<Rightarrow> json \<Rightarrow> exn + json list" where
  "mapArray f v = (case v of JArr xs \<Rightarrow> Inr (map f xs) | _ \<Rightarrow> Inl TypeError)"

text \<open>The decimal name of an index, as a property name.\<close>

fun digits :: "nat \<Rightarrow> string" where
  "digits n =
     (if n < 10 then [''0123456789'' ! n]
      else digits (n div 10) @ [''0123456789'' ! (n mod 10)])"

text \<open>
  \<^verbatim>\<open>{ ...q }\<close>: the own enumerable properties of \<^verbatim>\<open>q\<close>; the indices of an
  array or of a string, nothing for \<^verbatim>\<open>null\<close>, a boolean or a number.
\<close>

definition spread :: "json \<Rightarrow> (string \<times> json) list" where
  "spread q =
     (case q of
        JObj kvs \<Rightarrow> kvs
      | JArr xs \<Rightarrow> map (\<lambda>(i, x). (digits i, x)) (enumerate 0 xs)
      | JStr s \<Rightarrow> map (\<lambda>(i, c). (digits i, JStr [c])) (enumerate 0 s)
      | _ \<Rightarrow> [])"

fun setProp :: "string \<Rightarrow> json \<Rightarrow> (string \<times> json) list \<Rightarrow> (string \<times> json) list" where
  "setProp name v [] = [(name, v)]"
| "setProp name v ((k, w) # kvs) =
     (if k = name then (name, v) # kvs else (k, w) # setProp name v kvs)"

text \<open>\<^verbatim>\<open>({ ...q, type: 'mcq' })\<close> and \<^verbatim>\<open>({ ...q, type: 'essay', options: [] })\<close>.\<close>

definition tagMcq :: "json \<Rightarrow> json" where
  "tagMcq q = JObj (setProp ''type'' (JStr ''mcq'') (spread q))"

definition tagEssay :: "json \<Rightarrow> json" where
  "tagEssay q =
     JObj (setProp ''options'' (JArr []) (setProp ''type'' (JStr ''essay'') (spread q)))"

text \<open>
  The array literal built from the parsed payload, the same in both parse stages of
  \<^verbatim>\<open>regenerateQuiz\<close>.
\<close>

definition buildQuiz :: "json \<Rightarrow> exn + json list" where
  "buildQuiz parsed =
     (case getProp ''mcq_questions'' parsed of
        Inl e \<Rightarrow> Inl e
      | Inr m \<Rightarrow>
          (case mapArray tagMcq (orEmptyArray m) of
             Inl e \<Rightarrow> Inl e
           | Inr ms \<Rightarrow>
               (case getProp ''essay_questions'' parsed of
                  Inl e \<Rightarrow> Inl e
                | Inr s \<Rightarrow>
                    (case mapArray tagEssay (orEmptyArray s) of
                       Inl e \<Rightarrow> Inl e
                     | Inr es \<Rightarrow> Inr (ms @ es)))))"

text \<open>
  \<^verbatim>\<open>JSON5.parse\<close> is a library outside the repository: the functions below take it as
  the parameter \<open>parse\<close>, \<open>None\<close> standing for the \<^verbatim>\<open>SyntaxError\<close> it throws.
\<close>

definition parseAndBuild :: "(string \<Rightarrow> json option) \<Rightarrow> string \<Rightarrow> exn + json list" where
  "parseAndBuild parse t =
     (case parse t of None \<Rightarrow> Inl SyntaxError | Some parsed \<Rightarrow> buildQuiz parsed)"

text \<open>
  The parse stages of \<^verbatim>\<open>regenerateQuiz\<close>: the inner \<^verbatim>\<open>try\<close>, its
  \<^verbatim>\<open>catch\<close> with the fence clean-up, and the innermost \<^verbatim>\<open>catch\<close>.
\<close>

definition parseQuizPayload :: "(string \<Rightarrow> json option) \<Rightarrow> string \<Rightarrow> exn + json list" where
  "parseQuizPayload parse rawText =
     (case parseAndBuild parse rawText of
        Inr quiz \<Rightarrow> Inr quiz
      | Inl e \<Rightarrow>
          (let cleanText = stripFences rawText
           in case parseAndBuild parse cleanText of
                Inr quiz \<Rightarrow> Inr quiz
              | Inl err2 \<Rightarrow> Inr []))"

section \<open>Credentials, requests and the two generation entry points\<close>

record env =
  localStorage_gemini_api_key :: "string option"
  VITE_API_KEY :: "string option"
  process_env_API_KEY :: "string option"

text \<open>
  \<^verbatim>\<open>getApiKey\<close>: the key typed into the settings if it is not blank, then the
  build-time value, then the legacy process value; \<open>None\<close> is \<^verbatim>\<open>null\<close>.
\<close>

definition getApiKey :: "env \<Rightarrow> string option" where
  "getApiKey e =
     (if (case localStorage_gemini_api_key e of
            Some localKey \<Rightarrow> localKey \<noteq> [] \<and> length (trim localKey) > 0
          | None \<Rightarrow> False)
      then localStorage_gemini_api_key e
      else if (case VITE_API_KEY e of Some v \<Rightarrow> v \<noteq> [] | None \<Rightarrow> False)
      then VITE_API_KEY e
      else if (case process_env_API_KEY e of
                 Some v \<Rightarrow> v \<noteq> [] \<and> v \<noteq> ''undefined''
               | None \<Rightarrow> False)
      then process_env_API_KEY e
      else None)"

text \<open>The client is known by the key it was built with.\<close>

definition getAIClient :: "env \<Rightarrow> string option" where
  "getAIClient e =
     (case getApiKey e of
        None \<Rightarrow> None
      | Some apiKey \<Rightarrow> if apiKey = [] then None else Some apiKey)"

record VisionFile =
  data :: string
  mimeType :: string

datatype part = inlineData string string | textPart string

datatype contents = UserParts "part list" | PromptText string

text \<open>
  A call of \<^verbatim>\<open>ai.models.generateContent\<close>. \<open>responseJson\<close> stands for the pair
  \<^verbatim>\<open>responseMimeType: "application/json"\<close> and the fixed \<^verbatim>\<open>responseSchema\<close>.
  The call either rejects (\<open>Inl\<close>) or resolves to a response whose \<^verbatim>\<open>text\<close> may be
  \<^verbatim>\<open>undefined\<close>.
\<close>

record request =
  model :: string
  contents :: contents
  temperature :: "rat option"
  maxOutputTokens :: "nat option"
  responseJson :: bool

record response =
  response_text :: "string option"

type_synonym capability = "string \<Rightarrow> request \<Rightarrow> exn + response"


definition noteTaskHead :: string where
  \<open>noteTaskHead =
     ''\<newline>'' @
     ''  Tugas: Analisis materi dan buat MODUL PEMBELAJARAN MENDALAM & KOMPREHENSIF.\<newline>'' @
     ''  \<newline>'' @
     ''  Instruksi Format Output (PENTING):\<newline>'' @
     ''  1. Baris Pertama WAJIB diawali dengan "JUDUL: " diikuti judul materi.\<newline>'' @
     ''  2. Baris Kedua dan seterusnya adalah ISI MATERI dalam format Markdown.\<newline>'' @
     ''  \<newline>'' @
     ''  Instruksi Isi Materi:\<newline>'' @
     ''  - **PENJELASAN**: Harus SANGAT PANJANG, MENDETAIL, dan NARATIF. \<newline>'' @
     ''    - JANGAN hanya membahas Tipe Data atau Sintaks dasar.\<newline>'' @
     ''    - Jelaskan KONSEP, LOGIKA, ALGORITMA, SEJARAH, dan KEGUNAAN NYATA (Use Cases).\<newline>'' @
     ''    - Gunakan gaya bahasa buku teks akademik yang menjelaskan "Mengapa" dan "Bagaimana". \<newline>'' @
     ''    - Minimal 3-4 paragraf tebal per sub-topik.\<newline>'' @
     ''  - **STRUKTUR**: Gunakan Heading 2 (##) untuk Bab Utama dan Heading 3 (###) untuk Sub-bab.\<newline>'' @
     ''  \<newline>'' @
     ''  - **KHUSUS MATERI PEMROGRAMAN/IT**:\<newline>'' @
     ''    a. **BAHASA PEMROGRAMAN**: WAJIB memberikan contoh kode HANYA dalam bahasa **C** dan **COBOL** untuk setiap konsep yang dijelaskan. (Jangan gunakan Python, Java, dll).\<newline>'' @
     ''    b. **BATASAN CONTOH**: Cukup 1 contoh program komplit untuk masing-masing bahasa (C dan COBOL) per sub-bab yang relevan.\<newline>'' @
     ''    c. Kode harus ditulis dalam blok code markdown yang rapi.\<newline>'' @
     ''    d. Di bawah setiap kode, WAJIB buat blok kode terpisah dengan label "TERMINAL OUTPUT" untuk hasil eksekusinya.\<newline>'' @
     ''    e. **ANALISIS KODE**: Jelaskan logika kode C dan COBOL tersebut baris demi baris secara mendalam.\<newline>'' @
     ''  \<newline>'' @
     ''  ''\<close>

definition noteTaskTail :: string where
  \<open>noteTaskTail = ''\<newline>'' @
     ''  ''\<close>

definition quizPromptHead :: string where
  \<open>quizPromptHead =
     ''\<newline>'' @
     ''  Berdasarkan materi berikut, buatlah Kuis Evaluasi yang komprehensif.\<newline>'' @
     ''  \<newline>'' @
     ''  MATERI:\<newline>'' @
     ''  ''\<close>

definition quizPromptTail :: string where
  \<open>quizPromptTail =
     ''\<newline>'' @
     ''  \<newline>'' @
     ''  TUGAS:\<newline>'' @
     ''  Buat file JSON yang berisi 2 array: 'mcq_questions' dan 'essay_questions'.\<newline>'' @
     ''  \<newline>'' @
     ''  KOMPOSISI SOAL (WAJIB DIPATUHI):\<newline>'' @
     ''  1. **10 Soal Pilihan Ganda (MCQ)**: \<newline>'' @
     ''     - Cakupan luas dari materi.\<newline>'' @
     ''  2. **10 Soal Esai (Total)** dengan rincian:\<newline>'' @
     ''     - **5 Soal Esai Teori**: Pertanyaan konseptual/analisis.\<newline>'' @
     ''     - **5 Soal "Melengkapi Program" (Code Completion)**:\<newline>'' @
     ''       - **KHUSUS MATERI IT/CODING**: Berikan snippet kode dalam soal (gunakan format markdown ```) yang rumpang/hilang sebagian.\<newline>'' @
     ''       - **PENTING**: Gunakan bahasa **C** atau **COBOL** untuk soal melengkapi program (sesuai materi).\<newline>'' @
     ''       - Minta siswa melengkapi baris tersebut atau menebak outputnya.\<newline>'' @
     ''  \<newline>'' @
     ''  IMPORTANT:\<newline>'' @
     ''  - Output HARUS Valid JSON.\<newline>'' @
     ''  - Escape backslash dan karakter spesial dalam string JSON.\<newline>'' @
     ''  ''\<close>

definition promptContent :: "string \<Rightarrow> string" where
  "promptContent contextText =
     noteTaskHead
     @ (if contextText \<noteq> [] then ''\<newline>Konteks Tambahan:\<newline>'' @ contextText else [])
     @ noteTaskTail"

definition noteRequest :: "VisionFile list \<Rightarrow> string \<Rightarrow> request" where
  "noteRequest images contextText =
     \<lparr> model = ''gemini-2.5-flash'',
       contents = UserParts (map (\<lambda>img. inlineData (mimeType img) (data img)) images
                             @ [textPart (promptContent contextText)]),
       temperature = Some (7 / 10),
       maxOutputTokens = Some 8192,
       responseJson = False \<rparr>"

text \<open>
  \<^verbatim>\<open>content.length > 30000 ? content.slice(0, 30000) + "..." : content\<close> and the
  prompt built around it.
\<close>

definition safeContent :: "string \<Rightarrow> string" where
  "safeContent content =
     (if length content > 30000 then take 30000 content @ ''...'' else content)"

definition quizPrompt :: "string \<Rightarrow> string" where
  "quizPrompt content = quizPromptHead @ safeContent content @ quizPromptTail"

definition quizRequest :: "string \<Rightarrow> request" where
  "quizRequest content =
     \<lparr> model = ''gemini-2.5-flash'',
       contents = PromptText (quizPrompt content),
       temperature = None,
       maxOutputTokens = None,
       responseJson = True \<rparr>"

text \<open>
  \<^verbatim>\<open>regenerateQuiz\<close>. The body of its outer \<^verbatim>\<open>try\<close> first, where a rejected
  call is an exception; then the function, whose \<^verbatim>\<open>catch\<close> turns every exception
  into the empty quiz.
\<close>

definition regenerateQuiz_try ::
  "(string \<Rightarrow> json option) \<Rightarrow> (request \<Rightarrow> exn + response) \<Rightarrow> string \<Rightarrow> exn + json list" where
  "regenerateQuiz_try parse generateContent content =
     (case generateContent (quizRequest content) of
        Inl error \<Rightarrow> Inl error
      | Inr response \<Rightarrow>
          (case response_text response of
             None \<Rightarrow> Inr []
           | Some t \<Rightarrow> if t \<noteq> [] then parseQuizPayload parse t else Inr []))"

definition regenerateQuiz ::
  "env \<Rightarrow> (string \<Rightarrow> json option) \<Rightarrow> capability \<Rightarrow> string \<Rightarrow> exn + json list" where
  "regenerateQuiz e parse generateContent content =
     (case getAIClient e of
        None \<Rightarrow> Inr []
      | Some ai \<Rightarrow>
          (case regenerateQuiz_try parse (generateContent ai) content of
             Inr quiz \<Rightarrow> Inr quiz
           | Inl error \<Rightarrow> Inr []))"

text \<open>
  \<^verbatim>\<open>generateNoteSummary\<close>. \<open>today\<close> is \<^verbatim>\<open>new Date().toLocaleDateString()\<close>.
  The body of the \<^verbatim>\<open>try\<close>, then the function with its guard and its
  \<^verbatim>\<open>catch\<close>.
\<close>

record NoteSummary =
  title :: string
  content :: string
  quiz :: "json list"

definition generateNoteSummary_try ::
  "env \<Rightarrow> (string \<Rightarrow> json option) \<Rightarrow> capability \<Rightarrow> string \<Rightarrow> VisionFile list \<Rightarrow> string
     \<Rightarrow> exn + NoteSummary" where
  "generateNoteSummary_try e parse generateContent ai images contextText =
     (case generateContent ai (noteRequest images contextText) of
        Inl error \<Rightarrow> Inl error
      | Inr contentResponse \<Rightarrow>
          (let rawText = (case response_text contentResponse of None \<Rightarrow> [] | Some t \<Rightarrow> t)
           in if rawText = [] then Inl (Error ''Empty response from AI'')
              else
                (let (title', content') = parseNoteContent rawText
                 in case regenerateQuiz e parse generateContent content' of
                      Inl error \<Rightarrow> Inl error
                    | Inr quiz' \<Rightarrow>
                        Inr \<lparr> title = title', content = content', quiz = quiz' \<rparr>)))"

definition generateNoteSummary ::
  "env \<Rightarrow> (string \<Rightarrow> json option) \<Rightarrow> capability \<Rightarrow> string \<Rightarrow> VisionFile list \<Rightarrow> string \<Rightarrow> nat
     \<Rightarrow> exn + NoteSummary" where
  "generateNoteSummary e parse generateContent today images contextText fileCount =
     (case getAIClient e of
        None \<Rightarrow>
          Inr \<lparr> title = ''Error Konfigurasi'',
                content = ''API Key belum di-setting. Mohon masukkan API Key di menu Pengaturan.'',
                quiz = [] \<rparr>
      | Some ai \<Rightarrow>
          (case generateNoteSummary_try e parse generateContent ai images contextText of
             Inr result \<Rightarrow> Inr result
           | Inl error \<Rightarrow>
               Inr \<lparr> title = ''Catatan '' @ today,
                     content =
                       (if contextText \<noteq> []
                        then ''## Gagal Memproses AI\<newline>\<newline>Maaf, terjadi kesalahan saat menghubungi AI. Berikut teks yang terbaca:\<newline>\<newline>''
                             @ take 3000 contextText @ ''...''
                        else ''Terjadi kesalahan. Coba upload ulang atau gunakan file yang lebih kecil.''),
                     quiz = [] \<rparr>))"

section \<open>A JSON reader for the closed examples\<close>

text \<open>
  The examples need a concrete \<open>parse\<close>. \<open>readJSON\<close> reads the part of JSON5 made of
  objects, arrays, double-quoted strings with the escapes for the quote, the backslash,
  the slash and the newline, and the three literals, with white space between tokens; it
  rejects everything else. A later member of an object replaces an earlier one of the
  same name. \<^verbatim>\<open>JSON5.parse\<close> returns the same value on every text \<open>readJSON\<close>
  accepts, and rejects, as \<open>readJSON\<close> does, the fenced and the truncated texts used
  below. The recursion is bounded by the length of the text.
\<close>

fun readString :: "string \<Rightarrow> string \<Rightarrow> (string \<times> string) option" where
  "readString acc [] = None"
| "readString acc (c # cs) =
     (if c = CHR 0x22 then Some (rev acc, cs)
      else if c = CHR 0x5C then
        (case cs of
           [] \<Rightarrow> None
         | e # rest \<Rightarrow>
             if e = CHR ''n'' then readString (CHR 0x0A # acc) rest
             else if e = CHR 0x22 \<or> e = CHR 0x5C \<or> e = CHR ''/'' then readString (e # acc) rest
             else None)
      else if isLineTerminator c then None
      else readString (c # acc) cs)"

fun readValue :: "nat \<Rightarrow> string \<Rightarrow> (json \<times> string) option"
  and readElements :: "nat \<Rightarrow> json list \<Rightarrow> string \<Rightarrow> (json list \<times> string) option"
  and readMembers ::
    "nat \<Rightarrow> (string \<times> json) list \<Rightarrow> string \<Rightarrow> ((string \<times> json) list \<times> string) option"
where
  "readValue 0 s = None"
| "readValue (Suc n) s =
     (case dropWhile isSpace s of
        [] \<Rightarrow> None
      | c # cs \<Rightarrow>
          if c = CHR ''{'' then
            (if prefix ''}'' (dropWhile isSpace cs)
             then Some (JObj [], drop 1 (dropWhile isSpace cs))
             else map_option (\<lambda>(kvs, r). (JObj kvs, r)) (readMembers n [] cs))
          else if c = CHR ''['' then
            (if prefix '']'' (dropWhile isSpace cs)
             then Some (JArr [], drop 1 (dropWhile isSpace cs))
             else map_option (\<lambda>(xs, r). (JArr xs, r)) (readElements n [] cs))
          else if c = CHR 0x22 then map_option (\<lambda>(t, r). (JStr t, r)) (readString [] cs)
          else if prefix ''null'' (c # cs) then Some (JNull, drop 4 (c # cs))
          else if prefix ''true'' (c # cs) then Some (JBool True, drop 4 (c # cs))
          else if prefix ''false'' (c # cs) then Some (JBool False, drop 5 (c # cs))
          else None)"
| "readElements 0 acc s = None"
| "readElements (Suc n) acc s =
     (case readValue n s of
        None \<Rightarrow> None
      | Some (v, r) \<Rightarrow>
          (case dropWhile isSpace r of
             [] \<Rightarrow> None
           | c # cs \<Rightarrow>
               if c = CHR '','' then readElements n (acc @ [v]) cs
               else if c = CHR '']'' then Some (acc @ [v], cs)
               else None))"
| "readMembers 0 acc s = None"
| "readMembers (Suc n) acc s =
     (case dropWhile isSpace s of
        [] \<Rightarrow> None
      | q # s1 \<Rightarrow>
          if q \<noteq> CHR 0x22 then None
          else
            (case readString [] s1 of
               None \<Rightarrow> None
             | Some (k, s2) \<Rightarrow>
                 (case dropWhile isSpace s2 of
                    [] \<Rightarrow> None
                  | colon # s3 \<Rightarrow>
                      if colon \<noteq> CHR '':'' then None
                      else
                        (case readValue n s3 of
                           None \<Rightarrow> None
                         | Some (v, r) \<Rightarrow>
                             (case dropWhile isSpace r of
                                [] \<Rightarrow> None
                              | c # cs \<Rightarrow>
                                  if c = CHR '','' then readMembers n (setProp k v acc) cs
                                  else if c = CHR ''}'' then Some (setProp k v acc, cs)
                                  else None)))))"

definition readJSON :: "string \<Rightarrow> json option" where
  "readJSON s =
     (case readValue (Suc (length s)) s of
        None \<Rightarrow> None
      | Some (v, r) \<Rightarrow> if dropWhile isSpace r = [] then Some v else None)"

subsection \<open>An environment without any key, and a capability that is unreachable\<close>

definition noKeyEnv :: env where
  "noKeyEnv = \<lparr> localStorage_gemini_api_key = None, VITE_API_KEY = None,
                 process_env_API_KEY = None \<rparr>"

definition offline :: capability where
  "offline ai req = Inl (ApiError ''Failed to fetch'')"

subsection \<open>An environment with a stored key, and two capabilities\<close>

definition keyEnv :: env where
  "keyEnv = \<lparr> localStorage_gemini_api_key = Some ''AIza-demo'', VITE_API_KEY = None,
               process_env_API_KEY = None \<rparr>"

text \<open>
  \<open>answering noteText quizText\<close> resolves every call: the content call to \<open>noteText\<close>,
  the quiz call to \<open>quizText\<close>. \<open>quizOutage noteText\<close> resolves the content call and rejects
  the quiz call.
\<close>

definition answering :: "string \<Rightarrow> string \<Rightarrow> capability" where
  "answering noteText quizText ai req =
     (case contents req of
        UserParts ps \<Rightarrow> Inr \<lparr> response_text = Some noteText \<rparr>
      | PromptText p \<Rightarrow> Inr \<lparr> response_text = Some quizText \<rparr>)"

definition quizOutage :: "string \<Rightarrow> capability" where
  "quizOutage noteText ai req =
     (case contents req of
        UserParts ps \<Rightarrow> Inr \<lparr> response_text = Some noteText \<rparr>
      | PromptText p \<Rightarrow> Inl (ApiError ''503 Service Unavailable''))"

subsection \<open>Payload texts\<close>

definition demoPayload :: string where
  \<open>demoPayload =
     ''{"mcq_questions":[{"question":"2+2?","options":["3","4","5"],"answer":"4","explanation":"basic addition"}],'' @
     ''"essay_questions":[{"question":"Explain addition.","answer":"key points","explanation":"see chapter one"}]}''\<close>

definition demoParsed :: json where
  "demoParsed =
     JObj [(''mcq_questions'',
            JArr [JObj [(''question'', JStr ''2+2?''),
                        (''options'', JArr [JStr ''3'', JStr ''4'', JStr ''5'']),
                        (''answer'', JStr ''4''),
                        (''explanation'', JStr ''basic addition'')]]),
           (''essay_questions'',
            JArr [JObj [(''question'', JStr ''Explain addition.''),
                        (''answer'', JStr ''key points''),
                        (''explanation'', JStr ''see chapter one'')]])]"

definition demoQuiz :: "json list" where
  "demoQuiz =
     [JObj [(''question'', JStr ''2+2?''),
            (''options'', JArr [JStr ''3'', JStr ''4'', JStr ''5'']),
            (''answer'', JStr ''4''),
            (''explanation'', JStr ''basic addition''),
            (''type'', JStr ''mcq'')],
      JObj [(''question'', JStr ''Explain addition.''),
            (''answer'', JStr ''key points''),
            (''explanation'', JStr ''see chapter one''),
            (''type'', JStr ''essay''),
            (''options'', JArr [])]]"

text \<open>A code-completion question, as the quiz prompt asks for: a snippet between fences.\<close>

definition snippetPayload :: string where
  \<open>snippetPayload =
     ''{"mcq_questions":[],"essay_questions":[{"question":"Lengkapi: ```c int x = ; ```",'' @
     ''"answer":"0","explanation":"inisialisasi"}]}''\<close>

definition truncatedPayload :: string where
  \<open>truncatedPayload = ''```json\<newline>{"mcq_questions":[{"question":"2+''\<close>

text \<open>A payload without the essay array, one whose multiple-choice array is null, and one
  whose multiple-choice property is a string.\<close>

definition mcqOnlyPayload :: string where
  \<open>mcqOnlyPayload =
     ''{"mcq_questions":[{"question":"2+2?","options":["3","4","5"],"answer":"4","explanation":"basic addition"}]}''\<close>

definition nullMcqPayload :: string where
  \<open>nullMcqPayload =
     ''{"mcq_questions":null,'' @
     ''"essay_questions":[{"question":"Explain addition.","answer":"key points","explanation":"see chapter one"}]}''\<close>

definition stringMcqPayload :: string where
  \<open>stringMcqPayload = ''{"mcq_questions":"none"}''\<close>

definition demoEntry :: json where
  "demoEntry =
     JObj [(''question'', JStr ''2+2?''),
           (''options'', JArr [JStr ''3'', JStr ''4'', JStr ''5'']),
           (''answer'', JStr ''4''),
           (''explanation'', JStr ''basic addition'')]"

definition demoEssayEntry :: json where
  "demoEssayEntry =
     JObj [(''question'', JStr ''Explain addition.''),
           (''answer'', JStr ''key points''),
           (''explanation'', JStr ''see chapter one'')]"

subsection \<open>Notions used by the statements on the quiz payload\<close>

text \<open>
  The named array of a parsed payload, empty when the payload has no such array; the own
  properties of an entry; and what it means for the quiz phase to fail: the call rejects,
  or it brings no text, or its text yields a quiz at neither parse stage.
\<close>

definition entriesOf :: "string \<Rightarrow> json \<Rightarrow> json list" where
  "entriesOf name parsed =
     (case parsed of
        JObj kvs \<Rightarrow> (case map_of kvs name of Some (JArr xs) \<Rightarrow> xs | _ \<Rightarrow> [])
      | _ \<Rightarrow> [])"

definition ownProps :: "json \<Rightarrow> (string \<rightharpoonup> json)" where
  "ownProps q = map_of (spread q)"

text \<open>
  The named property of a parsed payload (\<open>None\<close> when the payload has none), and three
  shapes of it: an array; an array, absent or falsy; absent or falsy. A payload is
  acceptable to the quiz mapping when it is not \<^verbatim>\<open>null\<close> and each of the two named
  properties is absent, falsy or an array.
\<close>

definition propOf :: "string \<Rightarrow> json \<Rightarrow> json option" where
  "propOf name parsed = (case parsed of JObj kvs \<Rightarrow> map_of kvs name | _ \<Rightarrow> None)"

definition isArray :: "json \<Rightarrow> bool" where
  "isArray v = (case v of JArr xs \<Rightarrow> True | _ \<Rightarrow> False)"

definition arrayOrFalsy :: "json option \<Rightarrow> bool" where
  "arrayOrFalsy x = (case x of None \<Rightarrow> True | Some v \<Rightarrow> isArray v \<or> \<not> truthy v)"

definition absentOrFalsy :: "json option \<Rightarrow> bool" where
  "absentOrFalsy x = (case x of None \<Rightarrow> True | Some v \<Rightarrow> \<not> truthy v)"

definition acceptable :: "json \<Rightarrow> bool" where
  "acceptable parsed =
     (parsed \<noteq> JNull \<and> arrayOrFalsy (propOf ''mcq_questions'' parsed)
      \<and> arrayOrFalsy (propOf ''essay_questions'' parsed))"

definition quizPhaseFails :: "(string \<Rightarrow> json option) \<Rightarrow> exn + response \<Rightarrow> bool" where
  "quizPhaseFails parse outcome =
     (case outcome of
        Inl error \<Rightarrow> True
      | Inr r \<Rightarrow>
          (case response_text r of
             None \<Rightarrow> True
           | Some t \<Rightarrow>
               t = [] \<or> (isl (parseAndBuild parse t) \<and> isl (parseAndBuild parse (stripFences t)))))"

section \<open>Double precision: results\<close>

lemma floor_rat_numeral [simp]:
  "\<lfloor>numeral a / numeral b :: rat\<rfloor> = numeral a div numeral b"
  using floor_divide_of_int_eq [where ?'a = rat, of "numeral a" "numeral b"] by simp

lemma floor_rat_one [simp]:
  "\<lfloor>1 / numeral b :: rat\<rfloor> = 1 div numeral b"
  using floor_divide_of_int_eq [where ?'a = rat, of 1 "numeral b"] by simp

lemma bitlen_rat_bounds:
  assumes "0 < p"
  shows "power_int (2::rat) (bitlen p - 1) \<le> of_int p"
    and "of_int p < power_int (2::rat) (bitlen p)"
proof -
  from bitlen_bounds [OF assms]
  have l: "2 ^ nat (bitlen p - 1) \<le> p" and u: "p < 2 ^ nat (bitlen p)" by blast+
  have b: "1 \<le> bitlen p"
    using assms by (simp add: bitlen_alt_def)
  have "(of_int (2 ^ nat (bitlen p - 1)) :: rat) \<le> of_int p"
    using l by (simp only: of_int_le_iff)
  then show "power_int (2::rat) (bitlen p - 1) \<le> of_int p"
    using b by (simp add: power_int_def)
  have "(of_int p :: rat) < of_int (2 ^ nat (bitlen p))"
    using u by (simp only: of_int_less_iff)
  then show "of_int p < power_int (2::rat) (bitlen p)"
    using b by (simp add: power_int_def)
qed

text \<open>\<open>exponent x\<close> is the binary exponent of a positive \<open>x\<close>.\<close>

lemma exponent_bounds:
  assumes "0 < x"
  shows "power_int 2 (exponent x) \<le> x" and "x < power_int 2 (exponent x + 1)"
proof -
  obtain p q where pq: "quotient_of x = (p, q)" by (cases "quotient_of x")
  then have q: "0 < q" and x: "x = of_int p / of_int q"
    by (simp_all add: quotient_of_denom_pos quotient_of_div)
  from assms x q have p: "0 < p"
    by (simp add: zero_less_divide_iff)
  let ?d = "bitlen p - bitlen q"
  note P = bitlen_rat_bounds [OF p] and Q = bitlen_rat_bounds [OF q]
  have qpos: "(0::rat) < of_int q" using q by simp
  have low: "power_int 2 (?d - 1) \<le> x"
  proof -
    have "power_int (2::rat) (?d - 1) = power_int 2 ((bitlen p - 1) - bitlen q)"
      by (rule arg_cong [where f = "power_int 2"]) simp
    also have "\<dots> = power_int 2 (bitlen p - 1) / power_int 2 (bitlen q)"
      by (rule power_int_diff) simp
    also have "\<dots> \<le> of_int p / power_int 2 (bitlen q)"
      using P(1) by (simp add: divide_right_mono)
    also have "\<dots> \<le> of_int p / of_int q"
      by (rule divide_left_mono) (use Q(2) qpos p in simp_all)
    finally show ?thesis by (simp add: x)
  qed
  have up: "x < power_int 2 (?d + 1)"
  proof -
    have "x = of_int p / of_int q" by (rule x)
    also have "\<dots> < power_int 2 (bitlen p) / of_int q"
      using P(2) qpos by (simp add: divide_strict_right_mono)
    also have "\<dots> \<le> power_int 2 (bitlen p) / power_int 2 (bitlen q - 1)"
      by (rule divide_left_mono) (use Q(1) qpos in simp_all)
    also have "\<dots> = power_int (2::rat) (bitlen p - (bitlen q - 1))"
      by (rule power_int_diff [symmetric]) simp
    also have "bitlen p - (bitlen q - 1) = ?d + 1" by simp
    finally show ?thesis .
  qed
  have e: "exponent x = (if power_int 2 ?d \<le> x then ?d else ?d - 1)"
    by (simp add: exponent_def pq Let_def)
  show "power_int 2 (exponent x) \<le> x"
    using low by (simp add: e)
  show "x < power_int 2 (exponent x + 1)"
    using up by (auto simp add: e not_le)
qed

lemma roundHalfEven_error: "\<bar>of_int (roundHalfEven m) - m\<bar> \<le> 1 / 2"
proof -
  have "of_int \<lfloor>m\<rfloor> \<le> m" "m < of_int \<lfloor>m\<rfloor> + 1"
    by linarith+
  then show ?thesis
    by (auto simp add: roundHalfEven_def Let_def abs_le_iff)
qed

text \<open>Rounding to a double moves a positive number by at most \<open>2 ^ - 53\<close> of itself.\<close>

lemma fl_error:
  assumes "0 < x"
  shows "\<bar>fl x - x\<bar> \<le> x / 2 ^ 53"
proof -
  define u where "u = power_int (2::rat) (exponent x - 52)"
  have upos: "0 < u" by (simp add: u_def)
  have flx: "fl x = of_int (roundHalfEven (x / u)) * u"
    using assms by (simp add: fl_def u_def Let_def)
  have "fl x - x = (of_int (roundHalfEven (x / u)) - x / u) * u"
    using upos by (simp add: flx field_simps)
  then have "\<bar>fl x - x\<bar> = \<bar>of_int (roundHalfEven (x / u)) - x / u\<bar> * u"
    using upos by (simp add: abs_mult)
  also have "\<dots> \<le> (1 / 2) * u"
    using roundHalfEven_error upos by (simp add: mult_right_mono)
  also have "\<dots> = power_int 2 (exponent x) / 2 ^ 53"
  proof -
    have "u = power_int 2 (exponent x) / power_int 2 52"
      unfolding u_def by (rule power_int_diff) simp
    then show ?thesis by simp
  qed
  also have "\<dots> \<le> x / 2 ^ 53"
    using exponent_bounds(1) [OF assms] by (simp add: divide_right_mono)
  finally show ?thesis .
qed

lemma fl_zero [simp]: "fl 0 = 0"
  by (simp add: fl_def)

lemma fl_pos:
  assumes "0 < x"
  shows "0 < fl x"
proof -
  have "x / 2 ^ 53 < x" using assms by simp
  with fl_error [OF assms] have "\<bar>fl x - x\<bar> < x" by (rule le_less_trans)
  then show ?thesis by linarith
qed

lemma percent_error:
  assumes "0 < x" and "x \<le> 1"
  shows "\<bar>fl (fl x * 100) - 100 * x\<bar> < 1 / 2 ^ 44"
proof -
  let ?a = "fl x"
  have a: "\<bar>?a - x\<bar> \<le> x / 2 ^ 53" by (rule fl_error [OF assms(1)])
  have apos: "0 < ?a * 100" using fl_pos [OF assms(1)] by simp
  have b: "\<bar>fl (?a * 100) - ?a * 100\<bar> \<le> ?a * 100 / 2 ^ 53" by (rule fl_error [OF apos])
  have x53: "x / 2 ^ 53 \<le> 1 / 2 ^ 53" using assms(2) by (simp add: divide_right_mono)
  have "\<bar>?a - x\<bar> \<le> 1 / 2 ^ 53" using a x53 by (rule order_trans)
  moreover have "(1::rat) / 2 ^ 53 \<le> 1" by simp
  ultimately have a2: "?a \<le> 2" using assms(2) by linarith
  have "\<bar>fl (?a * 100) - 100 * x\<bar> \<le> \<bar>fl (?a * 100) - ?a * 100\<bar> + 100 * \<bar>?a - x\<bar>"
    by (simp add: abs_le_iff) (auto simp: abs_if)
  also have "\<dots> \<le> ?a * 100 / 2 ^ 53 + 100 * (x / 2 ^ 53)"
    using a b by simp
  also have "\<dots> \<le> 2 * 100 / 2 ^ 53 + 100 * (1 / 2 ^ 53)"
    using a2 x53 by (simp add: divide_right_mono)
  also have "\<dots> < 1 / 2 ^ 44" by simp
  finally show ?thesis .
qed

text \<open>
  Where \<open>100 * c / n\<close> is not halfway between two integers, the computed percentage is
  that number rounded, a half upwards.
\<close>

lemma percent_exact:
  assumes n: "0 < n" "n < 2 ^ 32" and c: "c \<le> n"
    and h: "\<not> halfway (100 * of_nat c / of_nat n)"
  shows "Math_round (js_times100 (js_div c n))
         = Num (of_int (roundHalfUp (100 * of_nat c / of_nat n)))"
proof (cases "c = 0")
  case True
  then show ?thesis using n by (simp add: js_div_def roundHalfUp_def)
next
  case False
  define x :: rat where "x = of_nat c / of_nat n"
  define t :: rat where "t = 100 * x + 1 / 2"
  define k where "k = \<lfloor>t\<rfloor>"
  define b where "b = fl (fl x * 100)"
  have x: "0 < x" "x \<le> 1" using False n c by (simp_all add: x_def)
  have err: "\<bar>b - 100 * x\<bar> < 1 / 2 ^ 44"
    unfolding b_def by (rule percent_error [OF x])
  have npos: "(0::rat) < of_nat n" using n by simp
  have nt: "2 * of_nat n * t = of_int (200 * int c + int n)"
    using npos by (simp add: t_def x_def field_simps)
  have tk: "of_int k \<noteq> t"
    using h by (simp add: halfway_def t_def x_def k_def)
  have kt: "of_int k < t" "t < of_int k + 1"
  proof -
    show "of_int k < t"
      by (rule order.not_eq_order_implies_strict [OF tk]) (simp add: k_def)
    show "t < of_int k + 1" unfolding k_def by linarith
  qed
  have gap_lo: "1 \<le> 2 * of_nat n * (t - of_int k)"
  proof -
    have eq: "2 * of_nat n * (t - of_int k) = of_int (200 * int c + int n - 2 * int n * k)"
      using nt by (simp add: algebra_simps)
    moreover have "0 < 2 * of_nat n * (t - of_int k)"
      using kt(1) npos by simp
    ultimately have "(0::rat) < of_int (200 * int c + int n - 2 * int n * k)" by simp
    then have "1 \<le> 200 * int c + int n - 2 * int n * k" by (simp only: of_int_0_less_iff)
    then have "(1::rat) \<le> of_int (200 * int c + int n - 2 * int n * k)"
      by (simp only: of_int_1_le_iff)
    with eq show ?thesis by simp
  qed
  have gap_hi: "1 \<le> 2 * of_nat n * (of_int k + 1 - t)"
  proof -
    have eq: "2 * of_nat n * (of_int k + 1 - t)
              = of_int (2 * int n * (k + 1) - (200 * int c + int n))"
      using nt by (simp add: algebra_simps)
    moreover have "0 < 2 * of_nat n * (of_int k + 1 - t)"
      using kt(2) npos by simp
    ultimately have "(0::rat) < of_int (2 * int n * (k + 1) - (200 * int c + int n))" by simp
    then have "1 \<le> 2 * int n * (k + 1) - (200 * int c + int n)"
      by (simp only: of_int_0_less_iff)
    then have "(1::rat) \<le> of_int (2 * int n * (k + 1) - (200 * int c + int n))"
      by (simp only: of_int_1_le_iff)
    with eq show ?thesis by simp
  qed
  have small: "2 * of_nat n * (1 / 2 ^ 44 :: rat) \<le> 1"
  proof -
    have "int n < 2 ^ 32" using n(2) by (metis of_nat_less_iff of_nat_numeral of_nat_power)
    then have "(of_nat n :: rat) < 2 ^ 32"
      by (metis of_int_less_iff of_int_numeral of_int_of_nat_eq of_int_power)
    then show ?thesis by simp
  qed
  have lo: "of_int k \<le> b + 1 / 2"
  proof -
    have "2 * of_nat n * (t - of_int k) \<ge> 2 * of_nat n * (1 / 2 ^ 44)"
      using gap_lo small by linarith
    then have "t - of_int k \<ge> 1 / 2 ^ 44"
      using npos by simp
    with err show ?thesis unfolding t_def by linarith
  qed
  have hi: "b + 1 / 2 < of_int k + 1"
  proof -
    have "2 * of_nat n * (of_int k + 1 - t) \<ge> 2 * of_nat n * (1 / 2 ^ 44)"
      using gap_hi small by linarith
    then have "of_int k + 1 - t \<ge> 1 / 2 ^ 44"
      using npos by simp
    with err show ?thesis unfolding t_def by linarith
  qed
  have "\<lfloor>b + 1 / 2\<rfloor> = k"
    using lo hi by (simp add: floor_unique)
  then show ?thesis
    using n by (simp add: js_div_def b_def x_def roundHalfUp_def k_def t_def)
qed

text \<open>In every case the computed percentage is an integer nearest to \<open>100 * c / n\<close>.\<close>

lemma percent_nearest:
  assumes n: "0 < n" "n < 2 ^ 32" and c: "c \<le> n"
  shows "\<exists>r. Math_round (js_times100 (js_div c n)) = Num (of_int r)
             \<and> \<bar>of_int r - 100 * of_nat c / of_nat n\<bar> \<le> (1 / 2 :: rat)"
proof (cases "halfway (100 * of_nat c / of_nat n)")
  case False
  let ?t = "100 * of_nat c / of_nat n + (1 / 2 :: rat)"
  have "of_int \<lfloor>?t\<rfloor> \<le> ?t" "?t < of_int \<lfloor>?t\<rfloor> + 1" by linarith+
  then have "\<bar>of_int (roundHalfUp (100 * of_nat c / of_nat n)) - 100 * of_nat c / of_nat n\<bar>
             \<le> (1 / 2 :: rat)"
    unfolding roundHalfUp_def by linarith
  with percent_exact [OF n c False] show ?thesis by blast
next
  case True
  define x :: rat where "x = of_nat c / of_nat n"
  define k where "k = \<lfloor>100 * x + 1 / 2\<rfloor>"
  define b where "b = fl (fl x * 100)"
  have t: "of_int k = 100 * x + 1 / 2"
    using True by (simp add: halfway_def k_def x_def)
  have "c \<noteq> 0"
  proof
    assume "c = 0"
    with True show False by (simp add: halfway_def)
  qed
  then have x: "0 < x" "x \<le> 1" using n c by (simp_all add: x_def)
  have err: "\<bar>b - 100 * x\<bar> < 1 / 2 ^ 44"
    unfolding b_def by (rule percent_error [OF x])
  have e1: "(1::rat) / 2 ^ 44 \<le> 1" by simp
  define r where "r = \<lfloor>b + 1 / 2\<rfloor>"
  have r: "of_int r \<le> b + 1 / 2" "b + 1 / 2 < of_int r + 1"
    unfolding r_def by linarith+
  from err e1 have "\<bar>b - 100 * x\<bar> < 1" by linarith
  then have bb: "b < 100 * x + 1" "100 * x - 1 < b" by linarith+
  have "(of_int r :: rat) < of_int k + 1" using r(1) bb(1) t by linarith
  then have "(of_int r :: rat) < of_int (k + 1)" by simp
  then have rk: "r \<le> k" by simp
  have "(of_int k :: rat) - 2 < of_int r" using r(2) bb(2) t by linarith
  then have "(of_int (k - 2) :: rat) < of_int r" by simp
  then have kr: "k - 1 \<le> r" by simp
  from rk kr have "r = k \<or> r = k - 1" by linarith
  then have "\<bar>of_int r - 100 * x\<bar> \<le> (1 / 2 :: rat)"
    using t by auto
  moreover have "Math_round (js_times100 (js_div c n)) = Num (of_int r)"
    using n by (simp add: js_div_def r_def b_def x_def)
  ultimately show ?thesis unfolding x_def by auto
qed

section \<open>Scoring: results\<close>

lemma scoreMCQ_fold:
  "fold (\<lambda>(idx, q) (correct, totalMCQ).
           if isMCQ q
           then (if ans idx = Some (answer q) then correct + 1 else correct, totalMCQ + 1)
           else (correct, totalMCQ))
        (enumerate k qs) (c, t)
   = (c + length (filter (\<lambda>(i, q). ans i = Some (answer q))
                     (filter (\<lambda>(i, q). isMCQ q) (enumerate k qs))),
      t + length (filter (\<lambda>(i, q). isMCQ q) (enumerate k qs)))"
  by (induction qs arbitrary: k c t) simp_all

lemma score_fold:
  "fold (\<lambda>(idx, q) correct. if ans idx = Some (answer q) then correct + 1 else correct)
        (enumerate k qs) c
   = c + length (filter (\<lambda>(i, q). ans i = Some (answer q)) (enumerate k qs))"
  by (induction qs arbitrary: k c) simp_all

lemma counts_alt:
  "multipleChoiceCount qs = length (filter (\<lambda>(i, q). isMCQ q) (enumerate 0 qs))"
  "correctCount qs ans
   = length (filter (\<lambda>(i, q). ans i = Some (answer q))
               (filter (\<lambda>(i, q). isMCQ q) (enumerate 0 qs)))"
  by (simp_all add: multipleChoiceCount_def correctCount_def answeredMCQ_def multipleChoice_def
      filter_map comp_def case_prod_unfold)

lemma counts_bounds:
  "correctCount qs ans \<le> multipleChoiceCount qs" "multipleChoiceCount qs \<le> length qs"
proof -
  show "correctCount qs ans \<le> multipleChoiceCount qs"
    unfolding counts_alt by (rule length_filter_le)
  have "multipleChoiceCount qs \<le> length (enumerate 0 qs)"
    unfolding counts_alt by (rule length_filter_le)
  then show "multipleChoiceCount qs \<le> length qs" by simp
qed

text \<open>
  The essay-aware scorer is the code's expression applied to the two counts, with its
  guard for the quiz without multiple-choice entries.
\<close>

lemma calculateScoreMCQ_counts:
  "calculateScoreMCQ (Some qs) ans
   = (if multipleChoiceCount qs = 0 then Num 0
      else Math_round (js_times100 (js_div (correctCount qs ans) (multipleChoiceCount qs))))"
  by (simp add: calculateScoreMCQ_def scoreMCQ_fold counts_alt Let_def)

text \<open>
  The scorers without the test on the kind agree with the essay-aware scorer on a quiz
  that is not empty and whose entries are all multiple choice.
\<close>

lemma multipleChoice_all:
  assumes "\<forall>q \<in> set qs. isMCQ q"
  shows "multipleChoice qs = enumerate 0 qs"
proof -
  have "snd p \<in> set qs" if "p \<in> set (enumerate 0 qs)" for p
    using that by (metis image_eqI map_snd_enumerate set_map)
  with assms show ?thesis
    unfolding multipleChoice_def by (auto simp: filter_id_conv)
qed

lemma calculateScore_all_mcq:
  assumes "\<forall>q \<in> set qs. isMCQ q" and "qs \<noteq> []"
  shows "calculateScore (Some qs) ans = calculateScoreMCQ (Some qs) ans"
    and "QuizView_score qs ans = calculateScoreMCQ (Some qs) ans"
proof -
  have m: "filter (\<lambda>(i, q). isMCQ q) (enumerate 0 qs) = enumerate 0 qs"
    using multipleChoice_all [OF assms(1)] by (simp add: multipleChoice_def)
  have n: "multipleChoiceCount qs = length qs"
    by (simp add: counts_alt m)
  have c: "correctCount qs ans
           = length (filter (\<lambda>(i, q). ans i = Some (answer q)) (enumerate 0 qs))"
    by (simp add: counts_alt m)
  show "calculateScore (Some qs) ans = calculateScoreMCQ (Some qs) ans"
    using assms(2) by (simp add: calculateScoreMCQ_counts n c calculateScore_def score_fold)
  show "QuizView_score qs ans = calculateScoreMCQ (Some qs) ans"
    using assms(2) by (simp add: calculateScoreMCQ_counts n c QuizView_score_def score_fold)
qed



lemma quiz40_counts:
  "multipleChoiceCount quiz40 = 40" "correctCount quiz40 answers23 = 23"
  by (simp_all add: counts_alt quiz40_def) code_simp+

text \<open>
  Claim C1, as stated: the score is \<open>round (100 * correctCount / multipleChoiceCount)\<close>.
  The code divides first and multiplies by 100 afterwards, in doubles: with 23 right
  answers among 40 multiple-choice entries the quotient times 100 is a double just below
  57.5, and every scorer returns 57 where 100 * 23 / 40 rounds to 58.
\<close>

theorem score_23_of_40_counterexample:
  "multipleChoiceCount quiz40 = 40 \<and> correctCount quiz40 answers23 = 23
   \<and> js_times100 (js_div 23 40) = Num (8092405580431359 / 140737488355328)
   \<and> calculateScoreMCQ (Some quiz40) answers23 = Num 57
   \<and> calculateScore (Some quiz40) answers23 = Num 57
   \<and> QuizView_score quiz40 answers23 = Num 57
   \<and> score_spec quiz40 answers23 = Num 58"
proof -
  have d: "js_times100 (js_div 23 40) = Num (8092405580431359 / 140737488355328)"
    by code_simp
  have r: "Math_round (js_times100 (js_div 23 40)) = Num 57"
    by code_simp
  have a: "\<forall>q \<in> set quiz40. isMCQ q"
    by (simp add: quiz40_def isMCQ_def demo_mcq_def)
  have e: "quiz40 \<noteq> []"
    by (simp add: quiz40_def)
  have m: "calculateScoreMCQ (Some quiz40) answers23 = Num 57"
    by (simp add: calculateScoreMCQ_counts quiz40_counts r)
  have s: "score_spec quiz40 answers23 = Num 58"
    by (simp add: score_spec_def quiz40_counts roundHalfUp_def)
  show ?thesis
    using d m s quiz40_counts calculateScore_all_mcq [OF a e, of answers23] by simp
qed

text \<open>
  Claim C1, amended: for every quiz and every answers map, the scoring function returns
  \<^verbatim>\<open>Math.round((correctCount / multipleChoiceCount) * 100)\<close> as doubles compute it,
  where \<open>correctCount\<close> counts only the multiple-choice entries whose submitted answer
  equals their \<open>answer\<close> and \<open>multipleChoiceCount\<close> only the multiple-choice entries; the
  result is an integer nearest to \<open>100 * correctCount / multipleChoiceCount\<close>, and it is
  that number rounded (a half upwards) whenever the number is not exactly halfway between
  two integers; it is \<open>0\<close> when \<open>multipleChoiceCount\<close> is \<open>0\<close>. The scorers that do not
  look at the kind of an entry return the same value on every quiz that is not empty and
  has multiple-choice entries only, and \<open>0\<close> for a note without a quiz.
\<close>

theorem score_percentage:
  assumes "length qs < 2 ^ 32"
  shows "calculateScoreMCQ (Some qs) ans
           = (if multipleChoiceCount qs = 0 then Num 0
              else Math_round (js_times100
                     (js_div (correctCount qs ans) (multipleChoiceCount qs))))
         \<and> (\<exists>r. calculateScoreMCQ (Some qs) ans = Num (of_int r)
                \<and> (multipleChoiceCount qs \<noteq> 0 \<longrightarrow>
                     \<bar>of_int r - 100 * of_nat (correctCount qs ans)
                                    / of_nat (multipleChoiceCount qs)\<bar> \<le> (1 / 2 :: rat)))
         \<and> (\<not> halfway (100 * of_nat (correctCount qs ans) / of_nat (multipleChoiceCount qs))
              \<longrightarrow> calculateScoreMCQ (Some qs) ans = score_spec qs ans)
         \<and> ((\<forall>q \<in> set qs. isMCQ q) \<and> qs \<noteq> []
              \<longrightarrow> calculateScore (Some qs) ans = calculateScoreMCQ (Some qs) ans
                  \<and> QuizView_score qs ans = calculateScoreMCQ (Some qs) ans)
         \<and> calculateScoreMCQ None ans = Num 0 \<and> calculateScore None ans = Num 0"
proof -
  let ?n = "multipleChoiceCount qs" and ?c = "correctCount qs ans"
  have n32: "?n < 2 ^ 32"
    using counts_bounds(2) [of qs] assms by (rule le_less_trans)
  have cn: "?c \<le> ?n" by (rule counts_bounds(1))
  note 1 = calculateScoreMCQ_counts [of qs ans]
  have 2: "\<exists>r. calculateScoreMCQ (Some qs) ans = Num (of_int r)
                \<and> (?n \<noteq> 0 \<longrightarrow> \<bar>of_int r - 100 * of_nat ?c / of_nat ?n\<bar> \<le> (1 / 2 :: rat))"
  proof (cases "?n = 0")
    case True
    then have "calculateScoreMCQ (Some qs) ans = Num (of_int 0)" by (simp add: 1)
    with True show ?thesis by blast
  next
    case False
    then have "0 < ?n" by simp
    from percent_nearest [OF this n32 cn] False show ?thesis by (simp add: 1)
  qed
  have 3: "calculateScoreMCQ (Some qs) ans = score_spec qs ans"
    if "\<not> halfway (100 * of_nat ?c / of_nat ?n)"
  proof (cases "?n = 0")
    case True
    then show ?thesis by (simp add: 1 score_spec_def)
  next
    case False
    then have "0 < ?n" by simp
    from percent_exact [OF this n32 cn that] False show ?thesis
      by (simp add: 1 score_spec_def)
  qed
  have 4: "calculateScore (Some qs) ans = calculateScoreMCQ (Some qs) ans
           \<and> QuizView_score qs ans = calculateScoreMCQ (Some qs) ans"
    if "(\<forall>q \<in> set qs. isMCQ q) \<and> qs \<noteq> []"
    using that calculateScore_all_mcq [of qs ans] by blast
  have 5: "calculateScoreMCQ None ans = Num 0" "calculateScore None ans = Num 0"
    by (simp_all add: calculateScoreMCQ_def calculateScore_def)
  from 1 2 3 4 5 show ?thesis by blast
qed

theorem score_percentage_witness:
  "length [demo_mcq, demo_essay] < 2 ^ 32
   \<and> multipleChoiceCount [demo_mcq, demo_essay] = 1
   \<and> correctCount [demo_mcq, demo_essay] [0 \<mapsto> ''4''] = 1
   \<and> \<not> halfway (100 * of_nat (correctCount [demo_mcq, demo_essay] [0 \<mapsto> ''4''])
                    / of_nat (multipleChoiceCount [demo_mcq, demo_essay]))
   \<and> calculateScoreMCQ (Some [demo_mcq, demo_essay]) [0 \<mapsto> ''4''] = Num 100
   \<and> isMCQ demo_mcq
   \<and> calculateScoreMCQ (Some [demo_mcq]) [0 \<mapsto> ''4''] = Num 100
   \<and> calculateScore (Some [demo_mcq]) [0 \<mapsto> ''4''] = Num 100
   \<and> QuizView_score [demo_mcq] [0 \<mapsto> ''4''] = Num 100"
proof -
  have n: "multipleChoiceCount [demo_mcq, demo_essay] = 1"
    and c: "correctCount [demo_mcq, demo_essay] [0 \<mapsto> ''4''] = 1"
    and n1: "multipleChoiceCount [demo_mcq] = 1"
    and c1: "correctCount [demo_mcq] [0 \<mapsto> ''4''] = 1"
    by (simp_all add: counts_alt isMCQ_def demo_mcq_def demo_essay_def enumerate_eq_zip)
  have h: "\<not> halfway (100 * of_nat (correctCount [demo_mcq, demo_essay] [0 \<mapsto> ''4''])
                          / of_nat (multipleChoiceCount [demo_mcq, demo_essay]))"
    and h1: "\<not> halfway (100 * of_nat (correctCount [demo_mcq] [0 \<mapsto> ''4''])
                           / of_nat (multipleChoiceCount [demo_mcq]))"
    by (simp_all add: n c n1 c1 halfway_def)
  have s: "score_spec [demo_mcq, demo_essay] [0 \<mapsto> ''4''] = Num 100"
    and s1: "score_spec [demo_mcq] [0 \<mapsto> ''4''] = Num 100"
    by (simp_all add: score_spec_def n c n1 c1 roundHalfUp_def)
  have i: "isMCQ demo_mcq"
    by (simp add: isMCQ_def demo_mcq_def)
  have i1: "(\<forall>q \<in> set [demo_mcq]. isMCQ q) \<and> [demo_mcq] \<noteq> []"
    using i by simp
  have l: "length [demo_mcq, demo_essay] < 2 ^ 32" and l1: "length [demo_mcq] < 2 ^ 32"
    by simp_all
  note T = score_percentage [OF l, of "[0 \<mapsto> ''4'']"]
  note T1 = score_percentage [OF l1, of "[0 \<mapsto> ''4'']"]
  have a: "calculateScoreMCQ (Some [demo_mcq, demo_essay]) [0 \<mapsto> ''4''] = Num 100"
    using T [THEN conjunct2, THEN conjunct2, THEN conjunct1, THEN mp, OF h] s by (rule trans)
  have b: "calculateScoreMCQ (Some [demo_mcq]) [0 \<mapsto> ''4''] = Num 100"
    using T1 [THEN conjunct2, THEN conjunct2, THEN conjunct1, THEN mp, OF h1] s1 by (rule trans)
  note E = T1 [THEN conjunct2, THEN conjunct2, THEN conjunct2, THEN conjunct1, THEN mp, OF i1]
  have b1: "calculateScore (Some [demo_mcq]) [0 \<mapsto> ''4''] = Num 100"
    using E [THEN conjunct1] b by (rule trans)
  have b2: "QuizView_score [demo_mcq] [0 \<mapsto> ''4''] = Num 100"
    using E [THEN conjunct2] b by (rule trans)
  from l n c h a i b b1 b2 show ?thesis
    by (intro conjI)
qed



section \<open>The title convention: results\<close>

text \<open>
  Claim C6: on the line \<open>JUDUL: Fotosintesis\<close> followed by a newline and
  \<open>Isi bab satu...\<close> the extraction yields the title \<open>Fotosintesis\<close> and the body
  \<open>Isi bab satu...\<close>, the marker line removed; the marker is matched ignoring case.
\<close>

theorem parseNoteContent_fotosintesis:
  "parseNoteContent ''JUDUL: Fotosintesis\<newline>Isi bab satu...'' = (''Fotosintesis'', ''Isi bab satu...'')
   \<and> parseNoteContent ''judul: Fotosintesis\<newline>Isi bab satu...'' = (''Fotosintesis'', ''Isi bab satu...'')
   \<and> parseNoteContent ''Judul: Fotosintesis\<newline>Isi bab satu...'' = (''Fotosintesis'', ''Isi bab satu...'')"
  by (simp add: parseNoteContent_def titleMatch_def removeTitleLine_def trim_def canonicalize_def
      isSpace_def isLineTerminator_def)

lemma matchLiteralCI_None:
  "(matchLiteralCI p s = None) = (map canonicalize (take (length p) s) \<noteq> map canonicalize p)"
proof (induction p s rule: matchLiteralCI.induct)
  case (1 s) then show ?case by simp
next
  case (2 p ps) then show ?case by simp
next
  case (3 p ps c cs) then show ?case by auto
qed

lemma marker_canonical: "map canonicalize ''JUDUL:'' = ''JUDUL:''"
  by (simp add: canonicalize_def)

lemma no_marker:
  assumes "\<not> startsWithMarker rawText"
  shows "matchLiteralCI ''JUDUL:'' rawText = None"
proof -
  have len: "length ''JUDUL:'' = 6" by simp
  from matchLiteralCI_None [of "''JUDUL:''" rawText]
  have "(matchLiteralCI ''JUDUL:'' rawText = None)
        = (map canonicalize (take 6 rawText) \<noteq> ''JUDUL:'')"
    unfolding len marker_canonical .
  with assms show ?thesis
    unfolding startsWithMarker_def by blast
qed

lemma trim_id:
  assumes "s = [] \<or> (\<not> isSpace (hd s) \<and> \<not> isSpace (last s))"
  shows "trim s = s"
proof (cases "s = []")
  case True
  then show ?thesis by (simp add: trim_def)
next
  case False
  with assms have "dropWhile isSpace s = s" and "dropWhile isSpace (rev s) = rev s"
    by (simp_all add: dropWhile_eq_self_iff hd_rev)
  then show ?thesis by (simp add: trim_def)
qed

text \<open>
  Claim C7, amended: when the text does not start with the marker, the extraction yields
  the default title \<open>Ringkasan Materi\<close> and, as the body, the input with its leading and
  trailing white space removed; the body is the entire input, unmodified, when the input
  neither begins nor ends with white space.
\<close>

theorem parseNoteContent_no_marker:
  assumes "\<not> startsWithMarker rawText"
  shows "parseNoteContent rawText = (''Ringkasan Materi'', trim rawText)
         \<and> ((rawText = [] \<or> (\<not> isSpace (hd rawText) \<and> \<not> isSpace (last rawText)))
              \<longrightarrow> snd (parseNoteContent rawText) = rawText)"
  using no_marker [OF assms] trim_id [of rawText]
  by (auto simp add: parseNoteContent_def titleMatch_def removeTitleLine_def simp del: matchLiteralCI.simps)

theorem parseNoteContent_no_marker_witness:
  "\<not> startsWithMarker ''Isi bab satu...''
   \<and> parseNoteContent ''Isi bab satu...'' = (''Ringkasan Materi'', ''Isi bab satu...'')
   \<and> \<not> isSpace (hd ''Isi bab satu...'') \<and> \<not> isSpace (last ''Isi bab satu...'')
   \<and> snd (parseNoteContent ''Isi bab satu...'') = ''Isi bab satu...''"
proof -
  have m: "\<not> startsWithMarker ''Isi bab satu...''"
    by (simp add: startsWithMarker_def canonicalize_def)
  have t: "trim ''Isi bab satu...'' = ''Isi bab satu...''"
    and h: "\<not> isSpace (hd ''Isi bab satu...'')" "\<not> isSpace (last ''Isi bab satu...'')"
    by (simp_all add: trim_def isSpace_def)
  from parseNoteContent_no_marker [OF m] m t h show ?thesis
    by simp
qed

text \<open>
  Claim C7, as stated: the body is the entire input, unmodified. The content is
  \<^verbatim>\<open>.trim()\<close>med, so a text that ends with a newline loses it.
\<close>

theorem parseNoteContent_trims_counterexample:
  "\<not> startsWithMarker ''Isi bab satu...\<newline>''
   \<and> parseNoteContent ''Isi bab satu...\<newline>'' = (''Ringkasan Materi'', ''Isi bab satu...'')
   \<and> snd (parseNoteContent ''Isi bab satu...\<newline>'') \<noteq> ''Isi bab satu...\<newline>''"
  by (simp add: startsWithMarker_def parseNoteContent_def titleMatch_def removeTitleLine_def trim_def canonicalize_def
      isSpace_def isLineTerminator_def)

section \<open>The quiz prompt: results\<close>

text \<open>
  Claim C9: the prompt of quiz generation embeds the source text unchanged when it has at
  most 30000 characters, and otherwise exactly its first 30000 characters followed by the
  ellipsis \<open>...\<close>; this prompt is the contents of the request.
\<close>

theorem quizPrompt_excerpt:
  "contents (quizRequest c) = PromptText (quizPrompt c)
   \<and> (length c \<le> 30000 \<longrightarrow> quizPrompt c = quizPromptHead @ c @ quizPromptTail)
   \<and> (length c > 30000 \<longrightarrow> quizPrompt c = quizPromptHead @ (take 30000 c @ ''...'') @ quizPromptTail)"
  by (simp add: quizRequest_def quizPrompt_def safeContent_def)

theorem quizPrompt_excerpt_witness:
  "length ''Isi bab satu...'' \<le> 30000
   \<and> quizPrompt ''Isi bab satu...'' = quizPromptHead @ ''Isi bab satu...'' @ quizPromptTail
   \<and> length (replicate 30001 (CHR ''a'')) > 30000
   \<and> quizPrompt (replicate 30001 (CHR ''a''))
       = quizPromptHead @ (replicate 30000 (CHR ''a'') @ ''...'') @ quizPromptTail"
  using quizPrompt_excerpt [of "''Isi bab satu...''"] quizPrompt_excerpt [of "replicate 30001 (CHR ''a'')"]
  by simp

section \<open>Note generation: results\<close>

text \<open>
  Claim C3, amended: with no resolvable key (the stored key absent or blank, the
  build-time value absent or empty, the process value absent, empty or the text
  \<open>undefined\<close>), note generation does not throw and returns the empty quiz, the fixed
  configuration message as content, and the fixed title \<open>Error Konfigurasi\<close>.
\<close>

theorem generateNoteSummary_no_key:
  assumes "case localStorage_gemini_api_key e of None \<Rightarrow> True | Some k \<Rightarrow> trim k = []"
    and "VITE_API_KEY e = None \<or> VITE_API_KEY e = Some []"
    and "process_env_API_KEY e = None \<or> process_env_API_KEY e = Some []
         \<or> process_env_API_KEY e = Some ''undefined''"
  shows "generateNoteSummary e parse generateContent today images contextText fileCount
         = Inr \<lparr> title = ''Error Konfigurasi'',
                 content = ''API Key belum di-setting. Mohon masukkan API Key di menu Pengaturan.'',
                 quiz = [] \<rparr>"
proof -
  have "getApiKey e = None"
    using assms by (auto simp: getApiKey_def split: option.splits)
  then show ?thesis
    by (simp add: generateNoteSummary_def getAIClient_def)
qed

theorem generateNoteSummary_no_key_witness:
  "generateNoteSummary noKeyEnv readJSON offline ''11/1/2026'' [] [] 1
         = Inr \<lparr> title = ''Error Konfigurasi'',
                 content = ''API Key belum di-setting. Mohon masukkan API Key di menu Pengaturan.'',
                 quiz = [] \<rparr>"
  using generateNoteSummary_no_key [of noKeyEnv readJSON offline "''11/1/2026''" "[]" "[]" 1]
  by (simp add: noKeyEnv_def)

text \<open>
  Claim C3, as stated: the title of that result contains the current date. It is the
  fixed label, whatever the date.
\<close>

theorem no_key_title_counterexample:
  "getApiKey noKeyEnv = None
   \<and> generateNoteSummary noKeyEnv readJSON offline ''11/1/2026'' [] [] 1
       = Inr \<lparr> title = ''Error Konfigurasi'',
               content = ''API Key belum di-setting. Mohon masukkan API Key di menu Pengaturan.'',
               quiz = [] \<rparr>
   \<and> \<not> sublist ''11/1/2026'' ''Error Konfigurasi''"
proof -
  have k: "getApiKey noKeyEnv = None"
    by (simp add: getApiKey_def noKeyEnv_def)
  have d: "\<not> sublist ''11/1/2026'' ''Error Konfigurasi''"
    by code_simp
  show ?thesis
    using k d by (simp add: generateNoteSummary_def getAIClient_def)
qed

section \<open>Quiz payload parsing: results\<close>

lemma stripFences_no_backtick:
  "CHR 0x60 \<notin> set a \<Longrightarrow> stripFences (a @ b) = a @ stripFences b"
  by (induction a) auto

lemma stripFences_fenced:
  assumes "CHR 0x60 \<notin> set body"
  shows "stripFences (''```json\<newline>'' @ body @ ''```'') = body"
proof -
  have "stripFences (''```json\<newline>'' @ body @ ''```'') = stripFences (body @ ''```'')"
    by simp
  also have "\<dots> = body @ stripFences ''```''"
    using assms by (rule stripFences_no_backtick)
  also have "\<dots> = body"
    by simp
  finally show ?thesis .
qed

text \<open>
  Where the fence clean-up does recover the payload: a fenced text the parser rejects,
  whose body holds no backtick, yields what its body yields.
\<close>

lemma parseQuizPayload_fenced_plain:
  assumes "CHR 0x60 \<notin> set body"
    and "parse (''```json\<newline>'' @ body @ ''```'') = None"
  shows "parseQuizPayload parse (''```json\<newline>'' @ body @ ''```'') = parseQuizPayload parse body"
proof -
  have b: "stripFences body = body"
    using stripFences_no_backtick [of body "[]"] assms(1) by simp
  show ?thesis
    unfolding parseQuizPayload_def Let_def stripFences_fenced [OF assms(1)] b
    using assms(2) by (simp add: parseAndBuild_def split: sum.splits)
qed

text \<open>
  Claim C4: a valid JSON payload wrapped in code-fence markers yields the same questions
  as the unfenced payload. Evaluated on a payload whose essay question carries a fenced
  snippet: the clean-up removes every fence marker of the text, those inside the question
  too, so the fenced text yields a question without its fences.
\<close>

theorem fenced_snippet_payload:
  "readJSON (''```json\<newline>'' @ snippetPayload @ ''\<newline>```'') = None
   \<and> parseQuizPayload readJSON snippetPayload
       = Inr [JObj [(''question'', JStr ''Lengkapi: ```c int x = ; ```''),
                    (''answer'', JStr ''0''), (''explanation'', JStr ''inisialisasi''),
                    (''type'', JStr ''essay''), (''options'', JArr [])]]
   \<and> parseQuizPayload readJSON (''```json\<newline>'' @ snippetPayload @ ''\<newline>```'')
       = Inr [JObj [(''question'', JStr ''Lengkapi: c int x = ; ''),
                    (''answer'', JStr ''0''), (''explanation'', JStr ''inisialisasi''),
                    (''type'', JStr ''essay''), (''options'', JArr [])]]"
  by code_simp

text \<open>
  Claim C5: a text that parses neither directly nor after the fence clean-up yields the
  empty quiz, as a value; and quiz generation, given that text by the model, returns the
  empty quiz.
\<close>

theorem parseQuizPayload_unparsable:
  assumes "parse rawText = None" and "parse (stripFences rawText) = None"
  shows "parseQuizPayload parse rawText = Inr []
         \<and> (getAIClient e = Some ai \<and> generateContent ai (quizRequest c) = Inr r
              \<and> response_text r = Some rawText
            \<longrightarrow> regenerateQuiz e parse generateContent c = Inr [])"
proof -
  have p: "parseQuizPayload parse rawText = Inr []"
    using assms by (simp add: parseQuizPayload_def parseAndBuild_def)
  then show ?thesis
    by (auto simp add: regenerateQuiz_def regenerateQuiz_try_def)
qed

theorem parseQuizPayload_unparsable_witness:
  "readJSON truncatedPayload = None \<and> readJSON (stripFences truncatedPayload) = None
   \<and> parseQuizPayload readJSON truncatedPayload = Inr []
   \<and> getAIClient keyEnv = Some ''AIza-demo''
   \<and> answering ''JUDUL: Fotosintesis'' truncatedPayload ''AIza-demo'' (quizRequest ''Isi bab satu...'')
       = Inr \<lparr> response_text = Some truncatedPayload \<rparr>
   \<and> regenerateQuiz keyEnv readJSON (answering ''JUDUL: Fotosintesis'' truncatedPayload)
         ''Isi bab satu...'' = Inr []"
proof -
  have a: "readJSON truncatedPayload = None"
    by code_simp
  have b: "readJSON (stripFences truncatedPayload) = None"
    by code_simp
  have k: "getAIClient keyEnv = Some ''AIza-demo''"
    by (simp add: getAIClient_def getApiKey_def keyEnv_def trim_def isSpace_def)
  have g: "answering ''JUDUL: Fotosintesis'' truncatedPayload ''AIza-demo''
             (quizRequest ''Isi bab satu...'') = Inr \<lparr> response_text = Some truncatedPayload \<rparr>"
    by (simp add: answering_def quizRequest_def)
  from parseQuizPayload_unparsable [OF a b, of keyEnv "''AIza-demo''"
      "answering ''JUDUL: Fotosintesis'' truncatedPayload" "''Isi bab satu...''"
      "\<lparr> response_text = Some truncatedPayload \<rparr>"]
  show ?thesis using a b k g by simp
qed

lemma map_of_setProp: "map_of (setProp name v kvs) = (map_of kvs)(name \<mapsto> v)"
  by (induction kvs) (auto simp: fun_upd_twist)

lemma ownProps_tagMcq: "ownProps (tagMcq q) = (ownProps q)(''type'' \<mapsto> JStr ''mcq'')"
  by (simp add: ownProps_def tagMcq_def spread_def map_of_setProp)

lemma ownProps_tagEssay:
  "ownProps (tagEssay q) = (ownProps q)(''type'' \<mapsto> JStr ''essay'', ''options'' \<mapsto> JArr [])"
  by (simp add: ownProps_def tagEssay_def spread_def map_of_setProp)

lemma mapArray_orEmptyArray:
  "mapArray f (orEmptyArray x)
   = (if arrayOrFalsy x then Inr (map f (case x of Some (JArr xs) \<Rightarrow> xs | _ \<Rightarrow> []))
      else Inl TypeError)"
proof (cases x)
  case None
  then show ?thesis by (simp add: orEmptyArray_def mapArray_def arrayOrFalsy_def)
next
  case (Some v)
  then show ?thesis
    by (cases v) (simp_all add: orEmptyArray_def mapArray_def arrayOrFalsy_def isArray_def truthy_def)
qed

lemma getProp_propOf:
  "parsed \<noteq> JNull \<Longrightarrow> getProp name parsed = Inr (propOf name parsed)"
  by (cases parsed) (simp_all add: getProp_def propOf_def)

lemma entriesOf_propOf:
  "entriesOf name parsed = (case propOf name parsed of Some (JArr xs) \<Rightarrow> xs | _ \<Rightarrow> [])"
  by (cases parsed) (simp_all add: entriesOf_def propOf_def)

text \<open>
  The quiz mapping throws on every payload that is not acceptable and returns the tagged
  entries of the two arrays on every payload that is.
\<close>

lemma buildQuiz_acceptable:
  "buildQuiz parsed
   = (if acceptable parsed
      then Inr (map tagMcq (entriesOf ''mcq_questions'' parsed)
                @ map tagEssay (entriesOf ''essay_questions'' parsed))
      else Inl TypeError)"
proof (cases "parsed = JNull")
  case True
  then show ?thesis by (simp add: buildQuiz_def getProp_def acceptable_def)
next
  case False
  show ?thesis
    unfolding buildQuiz_def getProp_propOf [OF False] mapArray_orEmptyArray entriesOf_propOf
    using False by (simp add: acceptable_def)
qed

lemma entriesOf_missing:
  assumes "absentOrFalsy (propOf name parsed)"
  shows "entriesOf name parsed = []" and "arrayOrFalsy (propOf name parsed)"
proof -
  show "entriesOf name parsed = []"
  proof (cases "propOf name parsed")
    case None
    then show ?thesis by (simp add: entriesOf_propOf)
  next
    case (Some v)
    with assms have "\<not> truthy v" by (simp add: absentOrFalsy_def)
    then have "\<not> isArray v" by (cases v) (simp_all add: truthy_def isArray_def)
    with Some show ?thesis by (cases v) (simp_all add: entriesOf_propOf isArray_def)
  qed
  show "arrayOrFalsy (propOf name parsed)"
    using assms by (cases "propOf name parsed") (simp_all add: absentOrFalsy_def arrayOrFalsy_def)
qed

text \<open>
  Claim C10: quiz-payload parsing accepts a parsed payload, at the first stage or after
  the fence clean-up, exactly when the payload is not null and each of its two arrays is
  an array, absent or falsy. Then the quiz is the multiple-choice entries in the order of
  their array, each with its own properties and \<open>type\<close> set to \<open>mcq\<close>, followed by the
  essay entries in the order of their array, each with its own properties, \<open>type\<close> set to
  \<open>essay\<close> and \<open>options\<close> set to the empty array. A payload whose essay array is absent
  or falsy is accepted and gives the tagged multiple-choice entries alone; a payload whose
  multiple-choice array is absent or falsy is accepted and gives the tagged essay entries
  alone.
\<close>

theorem parseQuizPayload_order_and_tags:
  assumes "parse s = Some parsed"
    and "s = t \<or> (isl (parseAndBuild parse t) \<and> s = stripFences t)"
  shows "(acceptable parsed
            \<longrightarrow> parseQuizPayload parse t
                = Inr (map tagMcq (entriesOf ''mcq_questions'' parsed)
                       @ map tagEssay (entriesOf ''essay_questions'' parsed)))
         \<and> (\<not> acceptable parsed \<longrightarrow> parseAndBuild parse s = Inl TypeError)
         \<and> map ownProps (map tagMcq (entriesOf ''mcq_questions'' parsed)
                          @ map tagEssay (entriesOf ''essay_questions'' parsed))
             = map (\<lambda>q. (ownProps q)(''type'' \<mapsto> JStr ''mcq''))
                   (entriesOf ''mcq_questions'' parsed)
               @ map (\<lambda>q. (ownProps q)(''type'' \<mapsto> JStr ''essay'', ''options'' \<mapsto> JArr []))
                     (entriesOf ''essay_questions'' parsed)
         \<and> (\<forall>q \<in> set (map tagMcq (entriesOf ''mcq_questions'' parsed)
                        @ map tagEssay (entriesOf ''essay_questions'' parsed)).
               \<exists>kvs. q = JObj kvs)
         \<and> (parsed \<noteq> JNull \<and> arrayOrFalsy (propOf ''mcq_questions'' parsed)
              \<and> absentOrFalsy (propOf ''essay_questions'' parsed)
            \<longrightarrow> parseQuizPayload parse t
                = Inr (map tagMcq (entriesOf ''mcq_questions'' parsed)))
         \<and> (parsed \<noteq> JNull \<and> absentOrFalsy (propOf ''mcq_questions'' parsed)
              \<and> arrayOrFalsy (propOf ''essay_questions'' parsed)
            \<longrightarrow> parseQuizPayload parse t
                = Inr (map tagEssay (entriesOf ''essay_questions'' parsed)))"
proof -
  have s: "parseAndBuild parse s = buildQuiz parsed"
    using assms(1) by (simp add: parseAndBuild_def)
  have 1: "parseQuizPayload parse t
           = Inr (map tagMcq (entriesOf ''mcq_questions'' parsed)
                  @ map tagEssay (entriesOf ''essay_questions'' parsed))"
    if "acceptable parsed"
  proof -
    from that s have "parseAndBuild parse s
        = Inr (map tagMcq (entriesOf ''mcq_questions'' parsed)
               @ map tagEssay (entriesOf ''essay_questions'' parsed))"
      by (simp add: buildQuiz_acceptable)
    with assms(2) show ?thesis
      by (auto simp: parseQuizPayload_def Let_def isl_def)
  qed
  have 2: "parseAndBuild parse s = Inl TypeError" if "\<not> acceptable parsed"
    using that s by (simp add: buildQuiz_acceptable)
  have 3: "map ownProps (map tagMcq (entriesOf ''mcq_questions'' parsed)
                          @ map tagEssay (entriesOf ''essay_questions'' parsed))
             = map (\<lambda>q. (ownProps q)(''type'' \<mapsto> JStr ''mcq''))
                   (entriesOf ''mcq_questions'' parsed)
               @ map (\<lambda>q. (ownProps q)(''type'' \<mapsto> JStr ''essay'', ''options'' \<mapsto> JArr []))
                     (entriesOf ''essay_questions'' parsed)"
    by (simp add: ownProps_tagMcq ownProps_tagEssay comp_def)
  have 4: "\<forall>q \<in> set (map tagMcq (entriesOf ''mcq_questions'' parsed)
                        @ map tagEssay (entriesOf ''essay_questions'' parsed)).
               \<exists>kvs. q = JObj kvs"
    by (auto simp: tagMcq_def tagEssay_def)
  have 5: "parseQuizPayload parse t = Inr (map tagMcq (entriesOf ''mcq_questions'' parsed))"
    if h: "parsed \<noteq> JNull \<and> arrayOrFalsy (propOf ''mcq_questions'' parsed)
           \<and> absentOrFalsy (propOf ''essay_questions'' parsed)"
  proof -
    from h have e: "absentOrFalsy (propOf ''essay_questions'' parsed)" by blast
    from h entriesOf_missing(2) [OF e] have "acceptable parsed"
      by (simp add: acceptable_def)
    from 1 [OF this] show ?thesis
      by (simp add: entriesOf_missing(1) [OF e])
  qed
  have 6: "parseQuizPayload parse t = Inr (map tagEssay (entriesOf ''essay_questions'' parsed))"
    if h: "parsed \<noteq> JNull \<and> absentOrFalsy (propOf ''mcq_questions'' parsed)
           \<and> arrayOrFalsy (propOf ''essay_questions'' parsed)"
  proof -
    from h have e: "absentOrFalsy (propOf ''mcq_questions'' parsed)" by blast
    from h entriesOf_missing(2) [OF e] have "acceptable parsed"
      by (simp add: acceptable_def)
    from 1 [OF this] show ?thesis
      by (simp add: entriesOf_missing(1) [OF e])
  qed
  from 1 2 3 4 5 6 show ?thesis by blast
qed

theorem parseQuizPayload_order_and_tags_witness:
  "readJSON demoPayload = Some demoParsed \<and> acceptable demoParsed
   \<and> parseQuizPayload readJSON demoPayload = Inr demoQuiz
   \<and> map (\<lambda>q. ownProps q ''type'') demoQuiz = [Some (JStr ''mcq''), Some (JStr ''essay'')]
   \<and> map (\<lambda>q. ownProps q ''options'') demoQuiz
       = [Some (JArr [JStr ''3'', JStr ''4'', JStr ''5'']), Some (JArr [])]
   \<and> readJSON mcqOnlyPayload = Some (JObj [(''mcq_questions'', JArr [demoEntry])])
   \<and> arrayOrFalsy (propOf ''mcq_questions'' (JObj [(''mcq_questions'', JArr [demoEntry])]))
   \<and> absentOrFalsy (propOf ''essay_questions'' (JObj [(''mcq_questions'', JArr [demoEntry])]))
   \<and> parseQuizPayload readJSON mcqOnlyPayload = Inr [tagMcq demoEntry]
   \<and> readJSON nullMcqPayload
       = Some (JObj [(''mcq_questions'', JNull), (''essay_questions'', JArr [demoEssayEntry])])
   \<and> absentOrFalsy (propOf ''mcq_questions''
         (JObj [(''mcq_questions'', JNull), (''essay_questions'', JArr [demoEssayEntry])]))
   \<and> arrayOrFalsy (propOf ''essay_questions''
         (JObj [(''mcq_questions'', JNull), (''essay_questions'', JArr [demoEssayEntry])]))
   \<and> parseQuizPayload readJSON nullMcqPayload = Inr [tagEssay demoEssayEntry]
   \<and> readJSON stringMcqPayload = Some (JObj [(''mcq_questions'', JStr ''none'')])
   \<and> \<not> acceptable (JObj [(''mcq_questions'', JStr ''none'')])
   \<and> parseAndBuild readJSON stringMcqPayload = Inl TypeError
   \<and> isl (parseAndBuild readJSON (''```json\<newline>'' @ mcqOnlyPayload @ ''\<newline>```''))
   \<and> readJSON (stripFences (''```json\<newline>'' @ mcqOnlyPayload @ ''\<newline>```''))
       = Some (JObj [(''mcq_questions'', JArr [demoEntry])])
   \<and> parseQuizPayload readJSON (''```json\<newline>'' @ mcqOnlyPayload @ ''\<newline>```'')
       = Inr [tagMcq demoEntry]"
proof -
  let ?m = "JObj [(''mcq_questions'', JArr [demoEntry])]"
  let ?n = "JObj [(''mcq_questions'', JNull), (''essay_questions'', JArr [demoEssayEntry])]"
  let ?b = "JObj [(''mcq_questions'', JStr ''none'')]"
  let ?f = "''```json\<newline>'' @ mcqOnlyPayload @ ''\<newline>```''"
  have a: "readJSON demoPayload = Some demoParsed"
    by code_simp
  have am: "readJSON mcqOnlyPayload = Some ?m"
    by code_simp
  have an: "readJSON nullMcqPayload = Some ?n"
    by code_simp
  have ab: "readJSON stringMcqPayload = Some ?b"
    by code_simp
  have f1: "isl (parseAndBuild readJSON ?f)"
    by code_simp
  have f2: "readJSON (stripFences ?f) = Some ?m"
    by code_simp
  have c: "acceptable demoParsed"
    by (simp add: acceptable_def arrayOrFalsy_def propOf_def isArray_def demoParsed_def)
  have cb: "\<not> acceptable ?b"
    by (simp add: acceptable_def arrayOrFalsy_def propOf_def isArray_def truthy_def)
  have m: "?m \<noteq> JNull" "arrayOrFalsy (propOf ''mcq_questions'' ?m)"
    "absentOrFalsy (propOf ''essay_questions'' ?m)"
    by (simp_all add: arrayOrFalsy_def absentOrFalsy_def propOf_def isArray_def)
  have n: "?n \<noteq> JNull" "absentOrFalsy (propOf ''mcq_questions'' ?n)"
    "arrayOrFalsy (propOf ''essay_questions'' ?n)"
    by (simp_all add: arrayOrFalsy_def absentOrFalsy_def propOf_def isArray_def truthy_def)
  have e: "map tagMcq (entriesOf ''mcq_questions'' demoParsed)
           @ map tagEssay (entriesOf ''essay_questions'' demoParsed) = demoQuiz"
    by (simp add: entriesOf_def demoParsed_def demoQuiz_def tagMcq_def tagEssay_def spread_def)
  have em: "map tagMcq (entriesOf ''mcq_questions'' ?m) = [tagMcq demoEntry]"
    and en: "map tagEssay (entriesOf ''essay_questions'' ?n) = [tagEssay demoEssayEntry]"
    by (simp_all add: entriesOf_def)
  have d: "map (\<lambda>q. ownProps q ''type'') demoQuiz = [Some (JStr ''mcq''), Some (JStr ''essay'')]"
    "map (\<lambda>q. ownProps q ''options'') demoQuiz
       = [Some (JArr [JStr ''3'', JStr ''4'', JStr ''5'']), Some (JArr [])]"
    by (simp_all add: demoQuiz_def ownProps_def spread_def)
  from parseQuizPayload_order_and_tags [of readJSON demoPayload demoParsed demoPayload] a c
  have 1: "parseQuizPayload readJSON demoPayload = Inr demoQuiz"
    unfolding e by blast
  from parseQuizPayload_order_and_tags [of readJSON mcqOnlyPayload ?m mcqOnlyPayload] am m
  have 2: "parseQuizPayload readJSON mcqOnlyPayload = Inr [tagMcq demoEntry]"
    unfolding em by blast
  from parseQuizPayload_order_and_tags [of readJSON nullMcqPayload ?n nullMcqPayload] an n
  have 3: "parseQuizPayload readJSON nullMcqPayload = Inr [tagEssay demoEssayEntry]"
    unfolding en by blast
  from parseQuizPayload_order_and_tags [of readJSON stringMcqPayload ?b stringMcqPayload] ab cb
  have 4: "parseAndBuild readJSON stringMcqPayload = Inl TypeError"
    by blast
  from parseQuizPayload_order_and_tags [of readJSON "stripFences ?f" ?m ?f] f1 f2 m
  have 5: "parseQuizPayload readJSON ?f = Inr [tagMcq demoEntry]"
    unfolding em by blast
  from a c 1 d am m(2,3) 2 an n(2,3) 3 ab cb 4 f1 f2 5 show ?thesis
    by (intro conjI)
qed

section \<open>The orchestrator keeps the content: results\<close>

lemma regenerateQuiz_returns:
  "\<exists>q. regenerateQuiz e parse generateContent c = Inr q"
  by (simp add: regenerateQuiz_def split: option.splits sum.splits)

lemma parseQuizPayload_fails:
  assumes "isl (parseAndBuild parse t)" and "isl (parseAndBuild parse (stripFences t))"
  shows "parseQuizPayload parse t = Inr []"
  using assms by (auto simp: parseQuizPayload_def Let_def isl_def)

lemma regenerateQuiz_fails:
  assumes "getAIClient e = Some ai"
    and "quizPhaseFails parse (generateContent ai (quizRequest c))"
  shows "regenerateQuiz e parse generateContent c = Inr []"
  using assms
  by (auto simp: regenerateQuiz_def regenerateQuiz_try_def quizPhaseFails_def
      parseQuizPayload_fails split: sum.splits option.splits)

text \<open>
  Claim C8: when the content call brings a non-empty text, note generation returns, as a
  value, the title and content extracted from that text together with a quiz; and when
  the quiz phase fails, in whichever way, that quiz is empty and the title and content
  are the same.
\<close>

theorem generateNoteSummary_keeps_content:
  assumes "getAIClient e = Some ai"
    and "generateContent ai (noteRequest images contextText) = Inr r"
    and "response_text r = Some rawText" and "rawText \<noteq> []"
  shows "\<exists>q. generateNoteSummary e parse generateContent today images contextText fileCount
               = Inr \<lparr> title = fst (parseNoteContent rawText),
                       content = snd (parseNoteContent rawText), quiz = q \<rparr>
             \<and> regenerateQuiz e parse generateContent (snd (parseNoteContent rawText)) = Inr q
             \<and> (quizPhaseFails parse
                   (generateContent ai (quizRequest (snd (parseNoteContent rawText))))
                 \<longrightarrow> q = [])"
proof -
  obtain q where q: "regenerateQuiz e parse generateContent (snd (parseNoteContent rawText)) = Inr q"
    using regenerateQuiz_returns by blast
  have "generateNoteSummary e parse generateContent today images contextText fileCount
          = Inr \<lparr> title = fst (parseNoteContent rawText),
                  content = snd (parseNoteContent rawText), quiz = q \<rparr>"
    using assms q
    by (simp add: generateNoteSummary_def generateNoteSummary_try_def case_prod_unfold Let_def)
  moreover have "q = []"
    if "quizPhaseFails parse (generateContent ai (quizRequest (snd (parseNoteContent rawText))))"
    using regenerateQuiz_fails [of e ai parse generateContent "snd (parseNoteContent rawText)"]
      assms(1) that q by simp
  ultimately show ?thesis
    using q by blast
qed

theorem generateNoteSummary_keeps_content_witness:
  "getAIClient keyEnv = Some ''AIza-demo''
   \<and> quizOutage ''JUDUL: Fotosintesis\<newline>Isi bab satu...'' ''AIza-demo'' (noteRequest [] [])
       = Inr \<lparr> response_text = Some ''JUDUL: Fotosintesis\<newline>Isi bab satu...'' \<rparr>
   \<and> quizPhaseFails readJSON
         (quizOutage ''JUDUL: Fotosintesis\<newline>Isi bab satu...'' ''AIza-demo''
            (quizRequest ''Isi bab satu...''))
   \<and> generateNoteSummary keyEnv readJSON (quizOutage ''JUDUL: Fotosintesis\<newline>Isi bab satu...'')
         ''11/1/2026'' [] [] 1
       = Inr \<lparr> title = ''Fotosintesis'', content = ''Isi bab satu...'', quiz = [] \<rparr>"
proof -
  have k: "getAIClient keyEnv = Some ''AIza-demo''"
    by (simp add: getAIClient_def getApiKey_def keyEnv_def trim_def isSpace_def)
  have g: "quizOutage ''JUDUL: Fotosintesis\<newline>Isi bab satu...'' ''AIza-demo'' (noteRequest [] [])
       = Inr \<lparr> response_text = Some ''JUDUL: Fotosintesis\<newline>Isi bab satu...'' \<rparr>"
    by (simp add: quizOutage_def noteRequest_def)
  have p: "parseNoteContent ''JUDUL: Fotosintesis\<newline>Isi bab satu...''
           = (''Fotosintesis'', ''Isi bab satu...'')"
    by (simp add: parseNoteContent_def titleMatch_def removeTitleLine_def trim_def
        canonicalize_def isSpace_def isLineTerminator_def)
  have f: "quizPhaseFails readJSON
         (quizOutage ''JUDUL: Fotosintesis\<newline>Isi bab satu...'' ''AIza-demo''
            (quizRequest ''Isi bab satu...''))"
    by (simp add: quizPhaseFails_def quizOutage_def quizRequest_def)
  have t: "response_text \<lparr> response_text = Some ''JUDUL: Fotosintesis\<newline>Isi bab satu...'' \<rparr>
           = Some ''JUDUL: Fotosintesis\<newline>Isi bab satu...''"
    and n: "''JUDUL: Fotosintesis\<newline>Isi bab satu...'' \<noteq> []"
    by simp_all
  from generateNoteSummary_keeps_content
    [where e = keyEnv and ai = "''AIza-demo''"
       and generateContent = "quizOutage ''JUDUL: Fotosintesis\<newline>Isi bab satu...''"
       and images = "[]" and contextText = "[]"
       and r = "\<lparr> response_text = Some ''JUDUL: Fotosintesis\<newline>Isi bab satu...'' \<rparr>"
       and rawText = "''JUDUL: Fotosintesis\<newline>Isi bab satu...''"
       and parse = readJSON and today = "''11/1/2026''" and fileCount = 1] k g t n
  obtain q where
    1: "generateNoteSummary keyEnv readJSON (quizOutage ''JUDUL: Fotosintesis\<newline>Isi bab satu...'')
          ''11/1/2026'' [] [] 1
        = Inr \<lparr> title = fst (parseNoteContent ''JUDUL: Fotosintesis\<newline>Isi bab satu...''),
                content = snd (parseNoteContent ''JUDUL: Fotosintesis\<newline>Isi bab satu...''),
                quiz = q \<rparr>"
    and 2: "quizPhaseFails readJSON
              (quizOutage ''JUDUL: Fotosintesis\<newline>Isi bab satu...'' ''AIza-demo''
                 (quizRequest (snd (parseNoteContent ''JUDUL: Fotosintesis\<newline>Isi bab satu...''))))
            \<longrightarrow> q = []"
    by blast
  from 2 f have "q = []"
    unfolding p snd_conv by blast
  with 1 have "generateNoteSummary keyEnv readJSON (quizOutage ''JUDUL: Fotosintesis\<newline>Isi bab satu...'')
          ''11/1/2026'' [] [] 1
        = Inr \<lparr> title = ''Fotosintesis'', content = ''Isi bab satu...'', quiz = [] \<rparr>"
    unfolding p fst_conv snd_conv by blast
  with k g f show ?thesis by blast
qed

end
